theory Spec2Isabelle
  imports Complex_Main "HOL-Library.Word"
begin

unbundle bit_operations_syntax

section \<open>FB-Bus connector: data model\<close>

text \<open>
  The embedding follows \<^verbatim>\<open>miniserver_gateway/connectors/fb_bus\<close>. Python integers are
  \<^typ>\<open>int\<close> (register addresses, which the code only ever builds from two payload bytes,
  from \<^verbatim>\<open>int(s) - 1\<close> with \<^verbatim>\<open>int(s) > 0\<close> or from loop counters, are \<^typ>\<open>nat\<close>),
  received payloads are byte lists, wall-clock readings of \<^verbatim>\<open>time.time()\<close> are
  \<^typ>\<open>real\<close> numbers handed to the function that reads them, and a \<^verbatim>\<open>uuid.UUID\<close> is an
  opaque number.
\<close>

type_synonym uuid = nat
type_synonym byte = "8 word"

datatype DeviceStates =
    STATE_CONNECTED | STATE_DISCONNECTED | STATE_INIT | STATE_READY | STATE_RUNNING
  | STATE_SLEEPING | STATE_STOPPED | STATE_LOST | STATE_ALERT | STATE_UNKNOWN

datatype Packets =
    FB_PACKET_PAIR_DEVICE | FB_PACKET_READ_SINGLE_REGISTER | FB_PACKET_READ_MULTIPLE_REGISTERS
  | FB_PACKET_WRITE_SINGLE_REGISTER | FB_PACKET_WRITE_MULTIPLE_REGISTERS
  | FB_PACKET_REPORT_SINGLE_REGISTER | FB_PACKET_READ_ONE_CONFIGURATION
  | FB_PACKET_WRITE_ONE_CONFIGURATION | FB_PACKET_REPORT_ONE_CONFIGURATION
  | FB_PACKET_PING | FB_PACKET_PONG | FB_PACKET_HELLO | FB_PACKET_GET_STATE
  | FB_PACKET_SET_STATE | FB_PACKET_REPORT_STATE | FB_PACKET_CONTROL_DEVICE
  | FB_PACKET_PUBSUB_BROADCAST | FB_PACKET_PUBSUB_SUBSCRIBE | FB_PACKET_PUBSUB_UNSUBSCRIBE
  | FB_PACKET_EXCEPTION

fun packet_value :: "Packets \<Rightarrow> int" where
  "packet_value FB_PACKET_PAIR_DEVICE = 0x01"
| "packet_value FB_PACKET_READ_SINGLE_REGISTER = 0x03"
| "packet_value FB_PACKET_READ_MULTIPLE_REGISTERS = 0x05"
| "packet_value FB_PACKET_WRITE_SINGLE_REGISTER = 0x07"
| "packet_value FB_PACKET_WRITE_MULTIPLE_REGISTERS = 0x09"
| "packet_value FB_PACKET_REPORT_SINGLE_REGISTER = 0x0B"
| "packet_value FB_PACKET_READ_ONE_CONFIGURATION = 0x0D"
| "packet_value FB_PACKET_WRITE_ONE_CONFIGURATION = 0x0F"
| "packet_value FB_PACKET_REPORT_ONE_CONFIGURATION = 0x11"
| "packet_value FB_PACKET_PING = 0x13"
| "packet_value FB_PACKET_PONG = 0x15"
| "packet_value FB_PACKET_HELLO = 0x17"
| "packet_value FB_PACKET_GET_STATE = 0x19"
| "packet_value FB_PACKET_SET_STATE = 0x1B"
| "packet_value FB_PACKET_REPORT_STATE = 0x1D"
| "packet_value FB_PACKET_CONTROL_DEVICE = 0x1F"
| "packet_value FB_PACKET_PUBSUB_BROADCAST = 0x21"
| "packet_value FB_PACKET_PUBSUB_SUBSCRIBE = 0x23"
| "packet_value FB_PACKET_PUBSUB_UNSUBSCRIBE = 0x25"
| "packet_value FB_PACKET_EXCEPTION = 0x63"

definition FB_CONTENT_TERMINATOR :: int where
  "FB_CONTENT_TERMINATOR = 0x00"

definition FB_CONTENT_DATA_SPACE :: int where
  "FB_CONTENT_DATA_SPACE = 0x20"

datatype PairingCommands =
    FB_PAIRING_CMD_PROVIDE_ADDRESS | FB_PAIRING_CMD_SET_ADDRESS
  | FB_PAIRING_CMD_PROVIDE_ABOUT_INFO | FB_PAIRING_CMD_PROVIDE_DEVICE_MODEL
  | FB_PAIRING_CMD_PROVIDE_DEVICE_MANUFACTURER | FB_PAIRING_CMD_PROVIDE_DEVICE_VERSION
  | FB_PAIRING_CMD_PROVIDE_FIRMWARE_MANUFACTURER | FB_PAIRING_CMD_PROVIDE_FIRMWARE_VERSION
  | FB_PAIRING_CMD_PROVIDE_REGISTERS_SIZE | FB_PAIRING_CMD_PROVIDE_REGISTERS_STRUCTURE
  | FB_PAIRING_CMD_PROVIDE_SETTINGS_SIZE | FB_PAIRING_CMD_PROVIDE_SETTINGS_STRUCTURE
  | FB_PAIRING_CMD_FINISHED

fun pairing_cmd_value :: "PairingCommands \<Rightarrow> int" where
  "pairing_cmd_value FB_PAIRING_CMD_PROVIDE_ADDRESS = 0x01"
| "pairing_cmd_value FB_PAIRING_CMD_SET_ADDRESS = 0x02"
| "pairing_cmd_value FB_PAIRING_CMD_PROVIDE_ABOUT_INFO = 0x03"
| "pairing_cmd_value FB_PAIRING_CMD_PROVIDE_DEVICE_MODEL = 0x04"
| "pairing_cmd_value FB_PAIRING_CMD_PROVIDE_DEVICE_MANUFACTURER = 0x05"
| "pairing_cmd_value FB_PAIRING_CMD_PROVIDE_DEVICE_VERSION = 0x06"
| "pairing_cmd_value FB_PAIRING_CMD_PROVIDE_FIRMWARE_MANUFACTURER = 0x07"
| "pairing_cmd_value FB_PAIRING_CMD_PROVIDE_FIRMWARE_VERSION = 0x08"
| "pairing_cmd_value FB_PAIRING_CMD_PROVIDE_REGISTERS_SIZE = 0x09"
| "pairing_cmd_value FB_PAIRING_CMD_PROVIDE_REGISTERS_STRUCTURE = 0x0A"
| "pairing_cmd_value FB_PAIRING_CMD_PROVIDE_SETTINGS_SIZE = 0x0B"
| "pairing_cmd_value FB_PAIRING_CMD_PROVIDE_SETTINGS_STRUCTURE = 0x0C"
| "pairing_cmd_value FB_PAIRING_CMD_FINISHED = 0x0D"

datatype RegistersTypes =
    FB_REGISTER_DI | FB_REGISTER_DO | FB_REGISTER_AI | FB_REGISTER_AO

fun register_type_value :: "RegistersTypes \<Rightarrow> int" where
  "register_type_value FB_REGISTER_DI = 0x01"
| "register_type_value FB_REGISTER_DO = 0x02"
| "register_type_value FB_REGISTER_AI = 0x03"
| "register_type_value FB_REGISTER_AO = 0x04"

text \<open>\<^verbatim>\<open>RegistersTypes.has_value(v)\<close> followed by \<^verbatim>\<open>RegistersTypes(v)\<close>: the member
  with that value, if there is one.\<close>

definition RegistersTypes_of :: "int \<Rightarrow> RegistersTypes option" where
  "RegistersTypes_of v =
     (if v = 0x01 then Some FB_REGISTER_DI
      else if v = 0x02 then Some FB_REGISTER_DO
      else if v = 0x03 then Some FB_REGISTER_AI
      else if v = 0x04 then Some FB_REGISTER_AO
      else None)"

datatype SettingsTypes = FB_SETTINGS_DEVICE | FB_SETTINGS_REGISTER

fun setting_type_value :: "SettingsTypes \<Rightarrow> int" where
  "setting_type_value FB_SETTINGS_DEVICE = 0x01"
| "setting_type_value FB_SETTINGS_REGISTER = 0x02"

datatype DataTypes =
    FB_DATA_TYPE_UNKNOWN | FB_DATA_TYPE_UINT8 | FB_DATA_TYPE_UINT16 | FB_DATA_TYPE_UINT32
  | FB_DATA_TYPE_INT8 | FB_DATA_TYPE_INT16 | FB_DATA_TYPE_INT32 | FB_DATA_TYPE_FLOAT32
  | FB_DATA_TYPE_BOOL | FB_DATA_TYPE_TIME | FB_DATA_TYPE_DATE | FB_DATA_TYPE_DATETIME

text \<open>The device-reported state byte (\<^verbatim>\<open>types.DeviceStates\<close>), named apart from the
  gateway's \<^typ>\<open>DeviceStates\<close> as the source does on import.\<close>

datatype DevicePayloadStates =
    FB_DEVICE_STATE_RUNNING | FB_DEVICE_STATE_STOPPED | FB_DEVICE_STATE_PAIRING
  | FB_DEVICE_STATE_ERROR

definition DevicePayloadStates_of :: "int \<Rightarrow> DevicePayloadStates option" where
  "DevicePayloadStates_of v =
     (if v = 0x01 then Some FB_DEVICE_STATE_RUNNING
      else if v = 0x02 then Some FB_DEVICE_STATE_STOPPED
      else if v = 0x03 then Some FB_DEVICE_STATE_PAIRING
      else if v = 0x04 then Some FB_DEVICE_STATE_ERROR
      else None)"

text \<open>Values that travel between the gateway and a register: Python's \<^verbatim>\<open>None\<close>,
  \<^verbatim>\<open>bool\<close>, \<^verbatim>\<open>int\<close>, \<^verbatim>\<open>float\<close> and \<^verbatim>\<open>str\<close>.\<close>

datatype pyvalue = PyNone | PyBool bool | PyInt int | PyFloat real | PyStr string

datatype error =
    InvalidStateException
  | InvalidArgumentException
  | IndexError
  | StructError
  | ValueError
  | TypeError
  | AttributeError
  | OverflowError
  | PJON_Connection_Lost
  | PJON_Packets_Buffer_Full
  | PJON_Content_Too_Long

subsection \<open>DeviceEntity\<close>

text \<open>The fields of \<^verbatim>\<open>entities/device.py\<close>; the five hardware and firmware description
  strings, which no operation below reads, are left out.\<close>

record DeviceEntity =
  device_id :: uuid
  device_address :: int
  device_state :: DeviceStates
  serial_number :: string
  max_packet_length :: int
  description_support :: bool
  settings_support :: bool
  pub_sub_support :: bool
  waiting_for_packet :: "Packets option"
  last_packet_sent_timestamp :: real
  attempts :: int
  sampling_time :: real
  reading_registers_timestamp :: real
  reading_register_address :: "nat option"
  reading_register_type :: "RegistersTypes option"
  reading_settings_timestamp :: real
  reading_setting_address :: "nat option"
  reading_setting_type :: "SettingsTypes option"
  lost_timestamp :: real
  pairing_cmd :: "PairingCommands option"

text \<open>\<^verbatim>\<open>DeviceEntity.__init__\<close> with the class-level defaults of the other fields.\<close>

definition DeviceEntity_init ::
  "uuid \<Rightarrow> int \<Rightarrow> string \<Rightarrow> int \<Rightarrow> bool \<Rightarrow> bool \<Rightarrow> bool \<Rightarrow> DeviceEntity" where
  "DeviceEntity_init index addr serial mpl descr sett pubsub =
     \<lparr> device_id = index, device_address = addr, device_state = STATE_UNKNOWN,
       serial_number = serial, max_packet_length = mpl, description_support = descr,
       settings_support = sett, pub_sub_support = pubsub, waiting_for_packet = None,
       last_packet_sent_timestamp = 0, attempts = 0, sampling_time = 10,
       reading_registers_timestamp = 0, reading_register_address = None,
       reading_register_type = None, reading_settings_timestamp = 0,
       reading_setting_address = None, reading_setting_type = None,
       lost_timestamp = 0, pairing_cmd = None \<rparr>"

definition reset_communication :: "DeviceEntity \<Rightarrow> DeviceEntity" where
  "reset_communication d = d\<lparr> waiting_for_packet := None, attempts := 0 \<rparr>"

text \<open>\<^verbatim>\<open>set_state(state)\<close>; \<open>now\<close> is the reading of \<^verbatim>\<open>time.time()\<close> taken in the
  \<^verbatim>\<open>STATE_LOST\<close> branch.\<close>

definition set_state :: "DeviceEntity \<Rightarrow> DeviceStates \<Rightarrow> real \<Rightarrow> DeviceEntity" where
  "set_state d st now =
     (let d1 = d\<lparr> device_state := st \<rparr> in
      if st = STATE_LOST then
        (reset_communication (d1\<lparr> lost_timestamp := now \<rparr>))\<lparr> last_packet_sent_timestamp := 0 \<rparr>
      else if st = STATE_READY then
        d1\<lparr> reading_registers_timestamp := 0, reading_settings_timestamp := 0 \<rparr>
      else d1)"

definition is_ready :: "DeviceEntity \<Rightarrow> bool" where
  "is_ready d = (device_state d = STATE_RUNNING)"

definition is_lost :: "DeviceEntity \<Rightarrow> bool" where
  "is_lost d = (device_state d = STATE_LOST)"

definition increment_attempts :: "DeviceEntity \<Rightarrow> DeviceEntity" where
  "increment_attempts d = d\<lparr> attempts := attempts d + 1 \<rparr>"

definition set_waiting_for_packet :: "DeviceEntity \<Rightarrow> Packets \<Rightarrow> DeviceEntity" where
  "set_waiting_for_packet d p = d\<lparr> waiting_for_packet := Some p \<rparr>"

definition reset_waiting_for_packet :: "DeviceEntity \<Rightarrow> DeviceEntity" where
  "reset_waiting_for_packet d = d\<lparr> waiting_for_packet := None \<rparr>"

definition set_last_packet_timestamp :: "DeviceEntity \<Rightarrow> real \<Rightarrow> DeviceEntity" where
  "set_last_packet_timestamp d t = d\<lparr> last_packet_sent_timestamp := t \<rparr>"

text \<open>\<^verbatim>\<open>set_alive()\<close>: the state it sets is \<^verbatim>\<open>STATE_UNKNOWN\<close>, so \<^verbatim>\<open>set_state\<close> reads no
  clock there.\<close>

definition set_alive :: "DeviceEntity \<Rightarrow> DeviceEntity" where
  "set_alive d = (reset_communication (set_state d STATE_UNKNOWN 0))\<lparr> lost_timestamp := 0 \<rparr>"

definition set_reading_register :: "DeviceEntity \<Rightarrow> nat \<Rightarrow> RegistersTypes \<Rightarrow> DeviceEntity" where
  "set_reading_register d a t =
     d\<lparr> reading_register_address := Some a, reading_register_type := Some t \<rparr>"

definition reset_reading_register :: "DeviceEntity \<Rightarrow> bool \<Rightarrow> real \<Rightarrow> DeviceEntity" where
  "reset_reading_register d reset_timestamp now =
     d\<lparr> reading_registers_timestamp := (if reset_timestamp then 0 else now),
        reading_register_address := None, reading_register_type := None \<rparr>"

subsection \<open>RegisterEntity\<close>

record RegisterEntity =
  register_id :: uuid
  register_key :: string
  channel_id :: uuid
  register_device_id :: uuid
  register_address :: nat
  register_type :: RegistersTypes
  data_type :: DataTypes
  register_size :: int
  register_value :: pyvalue

text \<open>\<^verbatim>\<open>set_data_type\<close>: the size follows the data type; a data type outside the listed
  ones (TIME, DATE, DATETIME) leaves the size as it was.\<close>

definition set_data_type :: "RegisterEntity \<Rightarrow> DataTypes \<Rightarrow> RegisterEntity" where
  "set_data_type r dt =
     (let r1 =
        (if dt = FB_DATA_TYPE_UINT8 \<or> dt = FB_DATA_TYPE_INT8 then r\<lparr> register_size := 1 \<rparr>
         else if dt = FB_DATA_TYPE_UINT16 \<or> dt = FB_DATA_TYPE_INT16 then r\<lparr> register_size := 2 \<rparr>
         else if dt = FB_DATA_TYPE_UINT32 \<or> dt = FB_DATA_TYPE_INT32 \<or> dt = FB_DATA_TYPE_FLOAT32
           then r\<lparr> register_size := 4 \<rparr>
         else if dt = FB_DATA_TYPE_BOOL then r\<lparr> register_size := 1 \<rparr>
         else if dt = FB_DATA_TYPE_UNKNOWN then r\<lparr> register_size := 0 \<rparr>
         else r)
      in r1\<lparr> data_type := dt \<rparr>)"

definition RegisterEntity_init ::
  "uuid \<Rightarrow> string \<Rightarrow> uuid \<Rightarrow> uuid \<Rightarrow> nat \<Rightarrow> RegistersTypes \<Rightarrow> DataTypes \<Rightarrow> RegisterEntity" where
  "RegisterEntity_init index key chan dev addr rt dt =
     set_data_type
       \<lparr> register_id = index, register_key = key, channel_id = chan, register_device_id = dev,
         register_address = addr, register_type = rt, data_type = FB_DATA_TYPE_UNKNOWN,
         register_size = 0, register_value = PyNone \<rparr> dt"

definition is_writable :: "RegisterEntity \<Rightarrow> bool" where
  "is_writable r = (register_type r = FB_REGISTER_DO \<or> register_type r = FB_REGISTER_AO)"

definition set_value :: "RegisterEntity \<Rightarrow> pyvalue \<Rightarrow> RegisterEntity" where
  "set_value r v = r\<lparr> register_value := v \<rparr>"

subsection \<open>SettingEntity\<close>

text \<open>\<^verbatim>\<open>DeviceSettingEntity\<close> adds nothing to \<^verbatim>\<open>SettingEntity\<close>;
  \<^verbatim>\<open>RegisterSettingEntity\<close> extends it by the register it refers to.\<close>

record SettingEntity =
  setting_id :: uuid
  setting_device_id :: uuid
  setting_address :: nat
  setting_name :: "string option"
  setting_data_type :: DataTypes
  setting_size :: int
  setting_value :: pyvalue

record RegisterSettingEntity = SettingEntity +
  setting_register_address :: "nat option"
  setting_register_type :: "RegistersTypes option"

section \<open>The connector and its registry\<close>

text \<open>
  Calls the connector makes on the gateway container (\<^verbatim>\<open>self.__container\<close>), recorded in
  call order. \<^verbatim>\<open>add_or_edit_device\<close> is logged with the device id, the serial number and
  the state, which is what \<^verbatim>\<open>propagate_device_state\<close> passes.
\<close>

datatype upstream =
    Add_or_edit_device uuid string DeviceStates
  | Send_channel_property_to_storage uuid pyvalue pyvalue

text \<open>
  The registry dictionaries \<^verbatim>\<open>__devices\<close> and \<^verbatim>\<open>__registers\<close> are lists of entities in
  insertion order, which is the order Python iterates a dict in. Every store into them uses
  the entity's own id as the key, so the key is not kept apart from the entity; an entity
  obtained from the registry is the registry's object, and a mutation of it is written back
  under its id. \<open>sent\<close> records the frames handed to \<^verbatim>\<open>send_packet\<close> with their address and
  waiting time.
\<close>

record FbBusConnector =
  devices :: "DeviceEntity list"
  registers :: "RegisterEntity list"
  devices_settings :: "SettingEntity list"
  registers_settings :: "RegisterSettingEntity list"
  container :: "upstream list"
  sent :: "(int \<times> int list \<times> real) list"

definition MAX_ADDRESS :: int where
  "MAX_ADDRESS = 253"

definition ADDRESS_NOT_ASSIGNED :: int where
  "ADDRESS_NOT_ASSIGNED = 255"

text \<open>\<^verbatim>\<open>range(a, b)\<close> over integers.\<close>

definition py_range :: "int \<Rightarrow> int \<Rightarrow> int list" where
  "py_range a b = [a..b - 1]"

text \<open>\<^verbatim>\<open>self.__devices[d.get_id().__str__()] = d\<close>: an existing key keeps its position,
  a new key is appended.\<close>

definition devices_store :: "DeviceEntity list \<Rightarrow> DeviceEntity \<Rightarrow> DeviceEntity list" where
  "devices_store ds d =
     (if device_id d \<in> device_id ` set ds
      then map (\<lambda>x. if device_id x = device_id d then d else x) ds
      else ds @ [d])"

definition get_device_by_id :: "FbBusConnector \<Rightarrow> uuid \<Rightarrow> DeviceEntity option" where
  "get_device_by_id c k = find (\<lambda>d. device_id d = k) (devices c)"

text \<open>\<^verbatim>\<open>get_device_by_address(address)\<close>: the transport passes \<^verbatim>\<open>None\<close> as the sender
  address of a frame whose header has none, and \<^verbatim>\<open>None\<close> equals no device's address.\<close>

definition get_device_by_address :: "FbBusConnector \<Rightarrow> int option \<Rightarrow> DeviceEntity option" where
  "get_device_by_address c a = find (\<lambda>d. Some (device_address d) = a) (devices c)"

definition get_device_by_serial_number :: "FbBusConnector \<Rightarrow> string \<Rightarrow> DeviceEntity option" where
  "get_device_by_serial_number c s = find (\<lambda>d. serial_number d = s) (devices c)"

text \<open>
  \<^verbatim>\<open>create_device(serial_number, max_packet_length)\<close>; \<open>new_id\<close> is the value of
  \<^verbatim>\<open>uuid.uuid4()\<close>. The exception is raised before anything is stored, so \<open>Inl\<close> leaves the
  connector as it was.
\<close>

definition create_device ::
  "FbBusConnector \<Rightarrow> uuid \<Rightarrow> string \<Rightarrow> int \<Rightarrow> error + (DeviceEntity \<times> FbBusConnector)" where
  "create_device c new_id serial mpl =
     (let reserved_addresses = map device_address (devices c) in
      case find (\<lambda>i. i \<notin> set reserved_addresses) (py_range 1 MAX_ADDRESS) of
        None \<Rightarrow> Inl InvalidStateException
      | Some free_address \<Rightarrow>
          (let device = set_state
                 (DeviceEntity_init new_id free_address serial mpl False False False)
                 STATE_CONNECTED 0
           in Inr (device, c\<lparr> devices := devices_store (devices c) device \<rparr>)))"

definition update_device :: "FbBusConnector \<Rightarrow> DeviceEntity \<Rightarrow> FbBusConnector" where
  "update_device c d =
     (if device_id d \<in> device_id ` set (devices c)
      then c\<lparr> devices := devices_store (devices c) d \<rparr>
      else c)"

definition propagate_device_state :: "FbBusConnector \<Rightarrow> DeviceEntity \<Rightarrow> FbBusConnector" where
  "propagate_device_state c d =
     c\<lparr> container := container c @ [Add_or_edit_device (device_id d) (serial_number d) (device_state d)] \<rparr>"

definition get_registers_by_type ::
  "FbBusConnector \<Rightarrow> DeviceEntity \<Rightarrow> RegistersTypes \<Rightarrow> RegisterEntity list" where
  "get_registers_by_type c d rt =
     filter (\<lambda>r. register_device_id r = device_id d \<and> register_type r = rt) (registers c)"

definition get_register_by_address ::
  "FbBusConnector \<Rightarrow> DeviceEntity \<Rightarrow> RegistersTypes \<Rightarrow> nat \<Rightarrow> RegisterEntity option" where
  "get_register_by_address c d rt a =
     find (\<lambda>r. register_device_id r = device_id d \<and> register_address r = a \<and> register_type r = rt)
       (registers c)"

text \<open>
  \<^verbatim>\<open>update_register_value(register, value)\<close>: the register object is mutated whether or not
  its id is a key of the registry; the store and the upstream call happen only when it is.
  A register absent from the registry is an object of its own, and its mutation is not
  visible in the connector.
\<close>

definition update_register_value ::
  "FbBusConnector \<Rightarrow> RegisterEntity \<Rightarrow> pyvalue \<Rightarrow> FbBusConnector" where
  "update_register_value c r v =
     (let previous_value = register_value r;
          r1 = set_value r v
      in if register_id r \<in> register_id ` set (registers c)
         then c\<lparr> registers := map (\<lambda>x. if register_id x = register_id r then r1 else x) (registers c),
                 container := container c @
                   [Send_channel_property_to_storage (register_id r) v previous_value] \<rparr>
         else c)"

text \<open>\<^verbatim>\<open>get_settings_by_type(device, settings_type)\<close>; the register settings are returned
  as their \<^verbatim>\<open>SettingEntity\<close> part.\<close>

definition get_settings_by_type ::
  "FbBusConnector \<Rightarrow> DeviceEntity \<Rightarrow> SettingsTypes \<Rightarrow> SettingEntity list" where
  "get_settings_by_type c d t =
     (if t = FB_SETTINGS_DEVICE
      then filter (\<lambda>x. setting_device_id x = device_id d) (devices_settings c)
      else map SettingEntity.truncate
             (filter (\<lambda>x. setting_device_id x = device_id d) (registers_settings c)))"

text \<open>\<^verbatim>\<open>payload[i]\<close> for a non-negative index: out of range raises \<^verbatim>\<open>IndexError\<close>.\<close>

definition py_index :: "'a list \<Rightarrow> nat \<Rightarrow> error + 'a" where
  "py_index xs i = (if i < length xs then Inr (xs ! i) else Inl IndexError)"

section \<open>Checking handler\<close>

definition MAX_TRANSMIT_ATTEMPTS :: int where
  "MAX_TRANSMIT_ATTEMPTS = 5"

definition PING_DELAY :: real where
  "PING_DELAY = 15"

text \<open>\<^verbatim>\<open>Helpers.transform_state_for_gateway(received_state)\<close>.\<close>

definition transform_state_for_gateway :: "int \<Rightarrow> DeviceStates" where
  "transform_state_for_gateway received_state =
     (case DevicePayloadStates_of received_state of
        Some FB_DEVICE_STATE_RUNNING \<Rightarrow> STATE_RUNNING
      | Some FB_DEVICE_STATE_STOPPED \<Rightarrow> STATE_STOPPED
      | Some _ \<Rightarrow> STATE_UNKNOWN
      | None \<Rightarrow> STATE_UNKNOWN)"

text \<open>
  What one call of \<^verbatim>\<open>CheckingHandler.handle\<close> reads from outside the registry: the
  clock reading taken by \<^verbatim>\<open>set_state\<close> when the device is marked lost, the two readings
  of the ping condition, the reading stamped on a sent request, and the value
  \<^verbatim>\<open>send_packet\<close> returns.
\<close>

record handle_env =
  now_lost :: real
  now_check1 :: real
  now_check2 :: real
  now_sent :: real
  send_result :: bool

text \<open>The handler functions return the device object as they leave it together with the
  connector, since they mutate the object they are given and store it with
  \<^verbatim>\<open>update_device\<close>.\<close>

definition send_ping_handler ::
  "FbBusConnector \<Rightarrow> DeviceEntity \<Rightarrow> handle_env \<Rightarrow> DeviceEntity \<times> FbBusConnector" where
  "send_ping_handler c device env =
     (let output_content = [packet_value FB_PACKET_PING, FB_CONTENT_TERMINATOR];
          c1 = c\<lparr> sent := sent c @ [(device_address device, output_content, 0)] \<rparr>;
          device1 =
            (if send_result env then
               increment_attempts
                 (set_last_packet_timestamp (set_waiting_for_packet device FB_PACKET_PONG)
                    (now_sent env))
             else
               increment_attempts
                 (set_last_packet_timestamp (reset_waiting_for_packet device) (now_sent env)))
      in (device1, update_device c1 device1))"

definition send_get_device_state_handler ::
  "FbBusConnector \<Rightarrow> DeviceEntity \<Rightarrow> handle_env \<Rightarrow> DeviceEntity \<times> FbBusConnector" where
  "send_get_device_state_handler c device env =
     (let output_content = [packet_value FB_PACKET_GET_STATE, FB_CONTENT_TERMINATOR];
          device1 = set_last_packet_timestamp
                      (set_waiting_for_packet (increment_attempts device) FB_PACKET_GET_STATE)
                      (now_sent env);
          c1 = update_device c device1;
          c2 = c1\<lparr> sent := sent c1 @ [(device_address device1, output_content, 1)] \<rparr>
      in if \<not> send_result env then
           (let device2 = reset_communication device1 in (device2, update_device c2 device2))
         else (device1, c2))"

definition CheckingHandler_handle ::
  "FbBusConnector \<Rightarrow> DeviceEntity \<Rightarrow> handle_env \<Rightarrow> DeviceEntity \<times> FbBusConnector" where
  "CheckingHandler_handle c device env =
     (let (device1, c1) =
            (if attempts device \<ge> MAX_TRANSMIT_ATTEMPTS then
               (let d = set_state device STATE_LOST (now_lost env)
                in (d, propagate_device_state (update_device c d) d))
             else (device, c))
      in if is_lost device1
            \<and> now_check1 env - lost_timestamp device1 \<ge> PING_DELAY
            \<and> now_check2 env - last_packet_sent_timestamp device1 \<ge> PING_DELAY
         then send_ping_handler c1 device1 env
         else if device_state device1 = STATE_UNKNOWN
         then send_get_device_state_handler c1 device1 env
         else (device1, c1))"

definition pong_receiver :: "FbBusConnector \<Rightarrow> int option \<Rightarrow> FbBusConnector" where
  "pong_receiver c sender_address =
     (case get_device_by_address c sender_address of
        None \<Rightarrow> c
      | Some device \<Rightarrow>
          (let device1 = set_alive device
           in propagate_device_state (update_device c device1) device1))"

text \<open>\<^verbatim>\<open>__get_state_receiver\<close>; the states \<^verbatim>\<open>transform_state_for_gateway\<close> returns are
  never \<^verbatim>\<open>STATE_LOST\<close>, so \<^verbatim>\<open>set_state\<close> reads no clock.\<close>

definition get_state_receiver ::
  "FbBusConnector \<Rightarrow> int option \<Rightarrow> byte list \<Rightarrow> int \<Rightarrow> error + FbBusConnector" where
  "get_state_receiver c sender_address payload payload_length =
     (case get_device_by_address c sender_address of
        None \<Rightarrow> Inr c
      | Some device \<Rightarrow>
          if payload_length \<noteq> 3 then Inr c
          else (case py_index payload 1 of
                  Inl e \<Rightarrow> Inl e
                | Inr b \<Rightarrow>
                    (let device1 = set_state device (transform_state_for_gateway (uint b)) 0
                     in Inr (propagate_device_state (update_device c device1) device1))))"

definition set_state_receiver ::
  "FbBusConnector \<Rightarrow> int option \<Rightarrow> byte list \<Rightarrow> int \<Rightarrow> FbBusConnector" where
  "set_state_receiver c sender_address payload payload_length =
     (case get_device_by_address c sender_address of
        None \<Rightarrow> c
      | Some device \<Rightarrow> if payload_length \<noteq> 3 then c else c)"

definition report_state_receiver ::
  "FbBusConnector \<Rightarrow> int option \<Rightarrow> byte list \<Rightarrow> int \<Rightarrow> error + FbBusConnector" where
  "report_state_receiver c sender_address payload payload_length =
     (case get_device_by_address c sender_address of
        None \<Rightarrow> Inr c
      | Some device \<Rightarrow>
          if payload_length \<noteq> 3 then Inr c
          else (case py_index payload 1 of
                  Inl e \<Rightarrow> Inl e
                | Inr b \<Rightarrow>
                    (let device1 = set_state device (transform_state_for_gateway (uint b)) 0
                     in Inr (propagate_device_state (update_device c device1) device1))))"

definition CheckingHandler_receive ::
  "FbBusConnector \<Rightarrow> Packets \<Rightarrow> int option \<Rightarrow> byte list \<Rightarrow> int \<Rightarrow> error + FbBusConnector" where
  "CheckingHandler_receive c packet sender_address payload payload_length =
     (if packet = FB_PACKET_PONG then Inr (pong_receiver c sender_address)
      else if packet = FB_PACKET_GET_STATE
        then get_state_receiver c sender_address payload payload_length
      else if packet = FB_PACKET_SET_STATE
        then Inr (set_state_receiver c sender_address payload payload_length)
      else if packet = FB_PACKET_REPORT_STATE
        then report_state_receiver c sender_address payload payload_length
      else Inr c)"

section \<open>Typed values on the wire\<close>

text \<open>
  \<^verbatim>\<open>struct.unpack("<I", b)\<close> and \<^verbatim>\<open>struct.unpack("<i", b)\<close> need exactly four bytes and
  read them least significant byte first; \<^verbatim>\<open>struct.pack("<I", v)\<close> and
  \<^verbatim>\<open>struct.pack("<i", v)\<close> take an integer (a \<^verbatim>\<open>bool\<close> is one) in the range of the format
  and raise \<^verbatim>\<open>struct.error\<close> otherwise.
\<close>

definition le_bytes :: "int \<Rightarrow> byte list" where
  "le_bytes n =
     [word_of_int n, word_of_int (n div 256), word_of_int (n div 65536),
      word_of_int (n div 16777216)]"

definition struct_unpack_I :: "byte list \<Rightarrow> error + int" where
  "struct_unpack_I bs =
     (if length bs = 4 then Inr (horner_sum uint 256 bs) else Inl StructError)"

definition struct_unpack_i :: "byte list \<Rightarrow> error + int" where
  "struct_unpack_i bs =
     (if length bs = 4 then
        (let u = horner_sum uint 256 bs in Inr (if u \<ge> 2147483648 then u - 4294967296 else u))
      else Inl StructError)"

fun py_index_value :: "pyvalue \<Rightarrow> int option" where
  "py_index_value (PyInt n) = Some n"
| "py_index_value (PyBool b) = Some (if b then 1 else 0)"
| "py_index_value _ = None"

definition struct_pack_I :: "pyvalue \<Rightarrow> error + byte list" where
  "struct_pack_I v =
     (case py_index_value v of
        None \<Rightarrow> Inl StructError
      | Some n \<Rightarrow> if 0 \<le> n \<and> n \<le> 4294967295 then Inr (le_bytes n) else Inl StructError)"

definition struct_pack_i :: "pyvalue \<Rightarrow> error + byte list" where
  "struct_pack_i v =
     (case py_index_value v of
        None \<Rightarrow> Inl StructError
      | Some n \<Rightarrow>
          if - 2147483648 \<le> n \<and> n \<le> 2147483647 then Inr (le_bytes n) else Inl StructError)"

text \<open>
  The IEEE-754 single-precision conversions of \<^verbatim>\<open>struct\<close> (format \<^verbatim>\<open>"<f"\<close>) are not part
  of the repository; the helpers take them as a parameter.
\<close>

record float32_codec =
  unpack_f :: "byte list \<Rightarrow> real"
  pack_f :: "real \<Rightarrow> error + byte list"

fun py_number :: "pyvalue \<Rightarrow> real option" where
  "py_number (PyFloat x) = Some x"
| "py_number (PyInt n) = Some (real_of_int n)"
| "py_number (PyBool b) = Some (if b then 1 else 0)"
| "py_number _ = None"

definition struct_unpack_f :: "float32_codec \<Rightarrow> byte list \<Rightarrow> error + real" where
  "struct_unpack_f codec bs = (if length bs = 4 then Inr (unpack_f codec bs) else Inl StructError)"

definition struct_pack_f :: "float32_codec \<Rightarrow> pyvalue \<Rightarrow> error + byte list" where
  "struct_pack_f codec v =
     (case py_number v of None \<Rightarrow> Inl StructError | Some x \<Rightarrow> pack_f codec x)"

text \<open>\<^verbatim>\<open>RegistersHelper.transform_value_from_bytes(register, write_value)\<close>; the result
  \<^verbatim>\<open>None\<close> is \<^term>\<open>PyNone\<close>.\<close>

definition transform_value_from_bytes ::
  "float32_codec \<Rightarrow> RegisterEntity \<Rightarrow> byte list \<Rightarrow> error + pyvalue" where
  "transform_value_from_bytes codec register write_value =
     (if data_type register = FB_DATA_TYPE_FLOAT32 then
        (case struct_unpack_f codec write_value of Inl e \<Rightarrow> Inl e | Inr x \<Rightarrow> Inr (PyFloat x))
      else if data_type register = FB_DATA_TYPE_UINT8
            \<or> data_type register = FB_DATA_TYPE_UINT16
            \<or> data_type register = FB_DATA_TYPE_UINT32 then
        (case struct_unpack_I write_value of Inl e \<Rightarrow> Inl e | Inr n \<Rightarrow> Inr (PyInt n))
      else if data_type register = FB_DATA_TYPE_INT8
            \<or> data_type register = FB_DATA_TYPE_INT16
            \<or> data_type register = FB_DATA_TYPE_INT32 then
        (case struct_unpack_i write_value of Inl e \<Rightarrow> Inl e | Inr n \<Rightarrow> Inr (PyInt n))
      else Inr PyNone)"

text \<open>\<^verbatim>\<open>RegistersHelper.transform_value_to_bytes(register, write_value)\<close>; the result
  \<^verbatim>\<open>None\<close> is \<^term>\<open>None\<close>.\<close>

definition transform_value_to_bytes ::
  "float32_codec \<Rightarrow> RegisterEntity \<Rightarrow> pyvalue \<Rightarrow> error + byte list option" where
  "transform_value_to_bytes codec register write_value =
     (if data_type register = FB_DATA_TYPE_FLOAT32 then
        (case struct_pack_f codec write_value of Inl e \<Rightarrow> Inl e | Inr bs \<Rightarrow> Inr (Some bs))
      else if data_type register = FB_DATA_TYPE_UINT8
            \<or> data_type register = FB_DATA_TYPE_UINT16
            \<or> data_type register = FB_DATA_TYPE_UINT32 then
        (case struct_pack_I write_value of Inl e \<Rightarrow> Inl e | Inr bs \<Rightarrow> Inr (Some bs))
      else if data_type register = FB_DATA_TYPE_INT8
            \<or> data_type register = FB_DATA_TYPE_INT16
            \<or> data_type register = FB_DATA_TYPE_INT32 then
        (case struct_pack_i write_value of Inl e \<Rightarrow> Inl e | Inr bs \<Rightarrow> Inr (Some bs))
      else Inr None)"

section \<open>Reading handler: the reply to a multiple-register read\<close>

text \<open>
  The bits of a payload byte are taken from text:
  \<^verbatim>\<open>list("{:0>8d}".format(int(str(bin(int(payload[position_byte])))[2:])))\<close>, reversed.
  \<^verbatim>\<open>bin(n)[2:]\<close> is the binary numeral of \<open>n\<close>, \<^verbatim>\<open>int(s)\<close> reads it as a decimal number, and
  the format prints that number in decimal, padded with zeros on the left to a width of at
  least eight.
\<close>

definition py_digit :: "char \<Rightarrow> nat" where
  "py_digit ch = of_char ch - 48"

definition py_digit_char :: "nat \<Rightarrow> char" where
  "py_digit_char d = char_of (48 + d)"

fun py_bin :: "nat \<Rightarrow> string" where
  "py_bin n =
     (if n < 2 then [py_digit_char n] else py_bin (n div 2) @ [py_digit_char (n mod 2)])"

definition py_int_of_str :: "string \<Rightarrow> nat" where
  "py_int_of_str s = foldl (\<lambda>acc ch. 10 * acc + py_digit ch) 0 s"

fun py_str_of_nat :: "nat \<Rightarrow> string" where
  "py_str_of_nat n =
     (if n < 10 then [py_digit_char n]
      else py_str_of_nat (n div 10) @ [py_digit_char (n mod 10)])"

definition format_0_8d :: "nat \<Rightarrow> string" where
  "format_0_8d n =
     (let s = py_str_of_nat n in replicate (8 - length s) (CHR ''0'') @ s)"

definition data_byte :: "byte \<Rightarrow> string" where
  "data_byte b = rev (format_0_8d (py_int_of_str (py_bin (unat b))))"

text \<open>
  The inner loop \<^verbatim>\<open>for i in range(8)\<close> over the indices still to visit. Its \<^verbatim>\<open>break\<close>
  leaves this loop only; the register address (\<open>reg_address\<close>) goes on from where the
  loop stopped.
  \<^verbatim>\<open>data_byte[i]\<close> is in range, the text having at least eight characters.
\<close>

fun bits_loop ::
  "FbBusConnector \<Rightarrow> DeviceEntity \<Rightarrow> RegistersTypes \<Rightarrow> nat \<Rightarrow> string \<Rightarrow> nat list \<Rightarrow> nat
     \<Rightarrow> FbBusConnector \<times> nat" where
  "bits_loop c device rt registers_count db [] reg_address = (c, reg_address)"
| "bits_loop c device rt registers_count db (i # rest) reg_address =
     (let c1 =
            (case get_register_by_address c device rt reg_address of
               None \<Rightarrow> c
             | Some register \<Rightarrow>
                 update_register_value c register (PyBool (py_digit (db ! i) AND 1 \<noteq> 0)));
          reg_address1 = reg_address + 1
      in if reg_address1 \<ge> registers_count then (c1, reg_address1)
         else bits_loop c1 device rt registers_count db rest reg_address1)"

text \<open>
  The loop \<^verbatim>\<open>while position_byte < (payload_length - 1)\<close> of the digital branch. An
  \<^verbatim>\<open>IndexError\<close> leaves the receiver; the register values set before it stay set in the
  program, which the error value does not carry.
\<close>

function digital_loop ::
  "FbBusConnector \<Rightarrow> DeviceEntity \<Rightarrow> RegistersTypes \<Rightarrow> nat \<Rightarrow> byte list \<Rightarrow> int \<Rightarrow> nat \<Rightarrow> nat
     \<Rightarrow> error + FbBusConnector" where
  "digital_loop c device rt registers_count payload payload_length position_byte reg_address =
     (if int position_byte < payload_length - 1 then
        (case py_index payload position_byte of
           Inl e \<Rightarrow> Inl e
         | Inr b \<Rightarrow>
             (let (c1, reg_address1) =
                    bits_loop c device rt registers_count (data_byte b) [0..<8] reg_address
              in digital_loop c1 device rt registers_count payload payload_length
                   (position_byte + 1) reg_address1))
      else Inr c)"
  by pat_completeness auto
termination
  by (relation "measure (\<lambda>(c, device, rt, registers_count, payload, payload_length,
        position_byte, reg_address). nat (payload_length - 1 - int position_byte))") auto

text \<open>The loop \<^verbatim>\<open>while (position_byte + 3) < (payload_length - 1)\<close> of the analog
  branch; the four payload bytes are read only when the register exists.\<close>

function analog_loop ::
  "float32_codec \<Rightarrow> FbBusConnector \<Rightarrow> DeviceEntity \<Rightarrow> RegistersTypes \<Rightarrow> byte list \<Rightarrow> int \<Rightarrow> nat
     \<Rightarrow> nat \<Rightarrow> error + FbBusConnector" where
  "analog_loop codec c device rt payload payload_length position_byte reg_address =
     (if int position_byte + 3 < payload_length - 1 then
        (case get_register_by_address c device rt reg_address of
           None \<Rightarrow>
             analog_loop codec c device rt payload payload_length (position_byte + 4)
               (reg_address + 1)
         | Some register \<Rightarrow>
             (case (py_index payload position_byte, py_index payload (position_byte + 1),
                    py_index payload (position_byte + 2), py_index payload (position_byte + 3)) of
                (Inr b0, Inr b1, Inr b2, Inr b3) \<Rightarrow>
                  (case transform_value_from_bytes codec register [b0, b1, b2, b3] of
                     Inl e \<Rightarrow> Inl e
                   | Inr transformed \<Rightarrow>
                       analog_loop codec
                         (if transformed \<noteq> PyNone
                          then update_register_value c register transformed else c)
                         device rt payload payload_length (position_byte + 4)
                         (reg_address + 1))
              | _ \<Rightarrow> Inl IndexError))
      else Inr c)"
  by pat_completeness auto
termination
  by (relation "measure (\<lambda>(codec, c, device, rt, payload, payload_length, position_byte,
        reg_address). nat (payload_length - 1 - int position_byte))") auto

definition read_multiple_registers_receiver ::
  "float32_codec \<Rightarrow> FbBusConnector \<Rightarrow> int option \<Rightarrow> byte list \<Rightarrow> int \<Rightarrow> error + FbBusConnector" where
  "read_multiple_registers_receiver codec c sender_address payload payload_length =
     (case get_device_by_address c sender_address of
        None \<Rightarrow> Inr c
      | Some device \<Rightarrow>
          (case py_index payload 1 of
             Inl e \<Rightarrow> Inl e
           | Inr b1 \<Rightarrow>
               (case RegistersTypes_of (uint b1) of
                  None \<Rightarrow> Inr c
                | Some rt \<Rightarrow>
                    (case (py_index payload 2, py_index payload 3, py_index payload 4) of
                       (Inr b2, Inr b3, Inr b4) \<Rightarrow>
                         (let start_address = nat (push_bit 8 (uint b2) OR uint b3);
                              bytes_length = uint b4;
                              result =
                                (if rt = FB_REGISTER_DI \<or> rt = FB_REGISTER_DO then
                                   digital_loop c device rt
                                     (length (get_registers_by_type c device rt))
                                     payload payload_length 5 start_address
                                 else
                                   analog_loop codec c device rt payload payload_length 5
                                     start_address)
                          in case result of
                               Inl e \<Rightarrow> Inl e
                             | Inr c1 \<Rightarrow> Inr (update_device c1 (reset_communication device)))
                     | _ \<Rightarrow> Inl IndexError))))"

definition ReadingHandler_receive ::
  "float32_codec \<Rightarrow> FbBusConnector \<Rightarrow> Packets \<Rightarrow> int option \<Rightarrow> byte list \<Rightarrow> int
     \<Rightarrow> error + FbBusConnector" where
  "ReadingHandler_receive codec c packet sender_address payload payload_length =
     (if packet = FB_PACKET_READ_MULTIPLE_REGISTERS
      then read_multiple_registers_receiver codec c sender_address payload payload_length
      else Inr c)"

section \<open>Writing handler\<close>

definition WRITING_PACKET_RESPONSE_DELAY :: real where
  "WRITING_PACKET_RESPONSE_DELAY = 1 / 10"

text \<open>Truth value of a Python value, as \<^verbatim>\<open>if write_value:\<close> takes it.\<close>

fun py_truth :: "pyvalue \<Rightarrow> bool" where
  "py_truth PyNone = False"
| "py_truth (PyBool b) = b"
| "py_truth (PyInt n) = (n \<noteq> 0)"
| "py_truth (PyFloat x) = (x \<noteq> 0)"
| "py_truth (PyStr s) = (s \<noteq> [])"

text \<open>
  \<^verbatim>\<open>WritingHandler.write_value_to_register(register, write_value)\<close>. Of the environment it
  reads \<^term>\<open>now_sent\<close> and \<^term>\<open>send_result\<close>. The device is the registry's object,
  so what is done to it is written back; an exception of the value conversion leaves the
  handler before anything is changed.
\<close>

definition write_value_to_register ::
  "float32_codec \<Rightarrow> FbBusConnector \<Rightarrow> RegisterEntity \<Rightarrow> pyvalue \<Rightarrow> handle_env
     \<Rightarrow> error + FbBusConnector" where
  "write_value_to_register codec c register write_value env =
     (case get_device_by_id c (register_device_id register) of
        None \<Rightarrow> Inr c
      | Some device \<Rightarrow>
          if \<not> is_ready device then Inr c
          else
            (let output_content =
                   [packet_value FB_PACKET_WRITE_SINGLE_REGISTER,
                    register_type_value (register_type register),
                    drop_bit 8 (int (register_address register)),
                    int (register_address register) AND 0xFF];
                 value_bytes =
                   (if register_type register = FB_REGISTER_DO then
                      (let wv = (if py_truth write_value then 0xFF00 else 0x0000 :: int)
                       in Inr (Some [drop_bit 8 wv, wv AND 0xFF]))
                    else if register_type register = FB_REGISTER_AO then
                      (case transform_value_to_bytes codec register write_value of
                         Inl e \<Rightarrow> Inl e
                       | Inr None \<Rightarrow> Inr None
                       | Inr (Some transformed) \<Rightarrow>
                           (case (py_index transformed 0, py_index transformed 1,
                                  py_index transformed 2, py_index transformed 3) of
                              (Inr b0, Inr b1, Inr b2, Inr b3) \<Rightarrow>
                                Inr (Some [uint b0, uint b1, uint b2, uint b3])
                            | _ \<Rightarrow> Inl IndexError))
                    else Inr None)
             in case value_bytes of
                  Inl e \<Rightarrow> Inl e
                | Inr None \<Rightarrow> Inr c
                | Inr (Some bs) \<Rightarrow>
                    (let output_content1 = output_content @ bs @ [FB_CONTENT_TERMINATOR];
                         device1 = set_last_packet_timestamp
                                     (set_waiting_for_packet (increment_attempts device)
                                        FB_PACKET_WRITE_SINGLE_REGISTER)
                                     (now_sent env);
                         c1 = update_device c device1;
                         c2 = c1\<lparr> sent := sent c1 @
                                [(device_address device1, output_content1,
                                  WRITING_PACKET_RESPONSE_DELAY)] \<rparr>
                     in if \<not> send_result env
                        then Inr (update_device c2 (reset_communication device1))
                        else Inr c2)))"

text \<open>
  \<^verbatim>\<open>FbBusConnector.publish(property_id, expected)\<close>: the loop over
  \<^verbatim>\<open>self.__registers.values()\<close>. The assignment to \<^verbatim>\<open>expected\<close> inside the loop stays in
  force for the registers that follow.
\<close>

definition toggle_expected :: "RegisterEntity \<Rightarrow> pyvalue \<Rightarrow> pyvalue" where
  "toggle_expected register expected =
     (if register_type register = FB_REGISTER_DO \<and> expected = PyStr ''toggle''
      then (if register_value register = PyBool True then PyBool False else PyBool True)
      else expected)"

fun publish_loop ::
  "float32_codec \<Rightarrow> FbBusConnector \<Rightarrow> RegisterEntity list \<Rightarrow> uuid \<Rightarrow> pyvalue \<Rightarrow> handle_env
     \<Rightarrow> error + FbBusConnector" where
  "publish_loop codec c [] property_id expected env = Inr c"
| "publish_loop codec c (register # rest) property_id expected env =
     (if register_id register = property_id then
        (let expected1 = toggle_expected register expected
         in case write_value_to_register codec c register expected1 env of
              Inl e \<Rightarrow> Inl e
            | Inr c1 \<Rightarrow> publish_loop codec c1 rest property_id expected1 env)
      else publish_loop codec c rest property_id expected env)"

definition publish ::
  "float32_codec \<Rightarrow> FbBusConnector \<Rightarrow> uuid \<Rightarrow> pyvalue \<Rightarrow> handle_env \<Rightarrow> error + FbBusConnector" where
  "publish codec c property_id expected env =
     publish_loop codec c (registers c) property_id expected env"

section \<open>Pairing helper: settings structure request\<close>

definition PAIRING_PACKET_RESPONSE_DELAY :: real where
  "PAIRING_PACKET_RESPONSE_DELAY = 2"

text \<open>
  \<^verbatim>\<open>round(n / d)\<close> for integers \<open>n\<close> and \<open>d > 0\<close>: Python 3 divides in floating point and
  rounds the quotient to the nearest integer, a tie to the even one. For the magnitudes of a
  packet length the floating-point quotient lies on the same side of every half-integer as
  the exact one, so the result is decided by the remainder.
\<close>

definition py_round_div :: "int \<Rightarrow> int \<Rightarrow> int" where
  "py_round_div n d =
     (let q = n div d; r = n mod d
      in if 2 * r < d then q
         else if 2 * r > d then q + 1
         else if even q then q else q + 1)"

definition send_data_to_device ::
  "FbBusConnector \<Rightarrow> DeviceEntity \<Rightarrow> int list \<Rightarrow> handle_env \<Rightarrow> DeviceEntity \<times> FbBusConnector" where
  "send_data_to_device c device data env =
     (let device1 = set_last_packet_timestamp
                      (set_waiting_for_packet (increment_attempts device) FB_PACKET_PAIR_DEVICE)
                      (now_sent env);
          c1 = update_device c device1;
          c2 = c1\<lparr> sent := sent c1 @
                 [(device_address device1, data, PAIRING_PACKET_RESPONSE_DELAY)] \<rparr>
      in if \<not> send_result env then
           (let device2 = reset_communication device1 in (device2, update_device c2 device2))
         else (device1, c2))"

text \<open>
  \<^verbatim>\<open>PairingHelper.__send_provide_settings_structure_handler(device)\<close>. A reading cursor
  that is \<^verbatim>\<open>None\<close> fails at \<^verbatim>\<open>setting_type.value\<close>, or at \<^verbatim>\<open>start_address >> 8\<close> when
  only the address is missing; the raising \<^verbatim>\<open>else\<close> branch of the type test cannot be
  reached, \<^verbatim>\<open>SettingsTypes\<close> having two members.
\<close>

definition send_provide_settings_structure_handler ::
  "FbBusConnector \<Rightarrow> DeviceEntity \<Rightarrow> handle_env \<Rightarrow> error + (DeviceEntity \<times> FbBusConnector)" where
  "send_provide_settings_structure_handler c device env =
     (case reading_setting_type device of
        None \<Rightarrow> Inl AttributeError
      | Some setting_type \<Rightarrow>
         (case reading_setting_address device of
            None \<Rightarrow> Inl TypeError
          | Some start \<Rightarrow>
             (let start_address = int start;
                  output_content =
                    [packet_value FB_PACKET_PAIR_DEVICE,
                     pairing_cmd_value FB_PAIRING_CMD_PROVIDE_SETTINGS_STRUCTURE,
                     setting_type_value setting_type,
                     drop_bit 8 start_address,
                     start_address AND 0xFF];
                  settings_size = int (length (get_settings_by_type c device setting_type));
                  max_readable_settings_count0 = max_packet_length device - 5;
                  max_readable_settings_count =
                    (if setting_type = FB_SETTINGS_DEVICE
                     then py_round_div max_readable_settings_count0 12
                     else py_round_div max_readable_settings_count0 15);
                  max_readable_addresses = start_address + max_readable_settings_count - 1;
                  requested =
                    (if max_readable_addresses + 1 \<ge> settings_size then
                       (if start_address = 0 then settings_size
                        else settings_size - start_address)
                     else max_readable_settings_count);
                  output_content1 = output_content
                    @ [drop_bit 8 requested, requested AND 0xFF]
                    @ [FB_CONTENT_TERMINATOR]
              in Inr (send_data_to_device c device output_content1 env))))"

section \<open>Transport\<close>

text \<open>
  The result codes of the link's \<^verbatim>\<open>loop()\<close> come from the PJON binding; only
  \<^verbatim>\<open>PJON_ACK\<close> is told apart from the others.
\<close>

datatype pjon_result = PJON_ACK | PJON_NAK | PJON_BUSY | PJON_FAIL | PJON_TO_BE_SENT






section \<open>Example registries\<close>

text \<open>A registry whose devices hold the addresses 1 to 252, one each.\<close>

definition registry_1_252 :: FbBusConnector where
  "registry_1_252 =
     \<lparr> devices = map (\<lambda>i. DeviceEntity_init (nat i) i ''SN'' 80 False False False) [1..252],
       registers = [], devices_settings = [], registers_settings = [],
       container = [], sent = [] \<rparr>"

text \<open>A device at bus address 9 that has used up its five attempts while waiting for a
  read reply, alone in its registry, and the readings of one handler step.\<close>

definition device_9 :: DeviceEntity where
  "device_9 =
     (DeviceEntity_init 1 9 ''SN-9'' 80 False False False)
       \<lparr> device_state := STATE_RUNNING,
         waiting_for_packet := Some FB_PACKET_READ_MULTIPLE_REGISTERS,
         last_packet_sent_timestamp := 990, attempts := 5 \<rparr>"

definition registry_9 :: FbBusConnector where
  "registry_9 = \<lparr> devices = [device_9], registers = [], devices_settings = [], registers_settings = [],
       container = [], sent = [] \<rparr>"

definition env_1000 :: handle_env where
  "env_1000 = \<lparr> now_lost = 1000, now_check1 = 1000, now_check2 = 1000, now_sent = 1000,
                 send_result = True \<rparr>"




text \<open>A stand-in for the floating-point conversions in examples that hold no FLOAT32
  register, and registers of data type UINT8 and BOOL.\<close>

definition plain_codec :: float32_codec where
  "plain_codec = \<lparr> unpack_f = (\<lambda>bs. 0), pack_f = (\<lambda>x. Inl OverflowError) \<rparr>"



text \<open>A running device at bus address 7 with ten digital inputs at the addresses 0 to 9
  and one digital output, none of them read yet.\<close>

definition device_7 :: DeviceEntity where
  "device_7 =
     (DeviceEntity_init 2 7 ''SN-7'' 80 False False False) \<lparr> device_state := STATE_RUNNING \<rparr>"

definition register_di :: "nat \<Rightarrow> RegisterEntity" where
  "register_di a = RegisterEntity_init (100 + a) ''di'' (300 + a) 2 a FB_REGISTER_DI FB_DATA_TYPE_BOOL"

definition register_do :: RegisterEntity where
  "register_do = RegisterEntity_init 200 ''do'' 400 2 0 FB_REGISTER_DO FB_DATA_TYPE_BOOL"

definition registry_7 :: FbBusConnector where
  "registry_7 =
     \<lparr> devices = [device_7],
       registers =
         [register_di 0, register_di 1, register_di 2, register_di 3, register_di 4,
          register_di 5, register_di 6, register_di 7, register_di 8, register_di 9,
          register_do],
       devices_settings = [], registers_settings = [], container = [], sent = [] \<rparr>"

text \<open>A device in pairing with a maximum packet length of 28 and three device settings,
  its settings cursor at the first of them.\<close>

definition device_28 :: DeviceEntity where
  "device_28 =
     (DeviceEntity_init 3 5 ''SN-5'' 28 False True False)
       \<lparr> device_state := STATE_INIT, reading_setting_address := Some 0,
         reading_setting_type := Some FB_SETTINGS_DEVICE \<rparr>"

definition device_setting :: "nat \<Rightarrow> SettingEntity" where
  "device_setting a =
     \<lparr> setting_id = 500 + a, setting_device_id = 3, setting_address = a, setting_name = None,
       setting_data_type = FB_DATA_TYPE_UNKNOWN, setting_size = 0, setting_value = PyNone \<rparr>"

definition registry_28 :: FbBusConnector where
  "registry_28 =
     \<lparr> devices = [device_28], registers = [],
       devices_settings = [device_setting 0, device_setting 1, device_setting 2],
       registers_settings = [],
       container = [], sent = [] \<rparr>"

chapter \<open>Verification\<close>

section \<open>Address allocation\<close>

lemma py_range_set: "set (py_range a b) = {a..<b}"
  by (auto simp: py_range_def)

lemma find_SomeD: "find P xs = Some x \<Longrightarrow> P x \<and> x \<in> set xs"
  by (induction xs) (auto split: if_splits)

lemma create_device_fails_iff:
  "(\<exists>e. create_device c new_id serial mpl = Inl e)
     \<longleftrightarrow> {1..<MAX_ADDRESS} \<subseteq> device_address ` set (devices c)"
proof (cases "find (\<lambda>i. i \<notin> set (map device_address (devices c))) (py_range 1 MAX_ADDRESS)")
  case None
  then have "\<forall>i\<in>{1..<MAX_ADDRESS}. i \<in> device_address ` set (devices c)"
    by (simp add: find_None_iff py_range_set)
  with None show ?thesis
    by (auto simp: create_device_def Let_def)
next
  case (Some a)
  from find_SomeD [OF Some] have "a \<in> {1..<MAX_ADDRESS}" "a \<notin> device_address ` set (devices c)"
    by (simp_all add: py_range_set)
  with Some show ?thesis
    by (auto simp: create_device_def Let_def)
qed

lemma create_device_lowest:
  assumes "create_device c new_id serial mpl = Inr (d, c')"
  shows "device_address d \<in> {1..<MAX_ADDRESS}"
    and "device_address d \<notin> device_address ` set (devices c)"
    and "\<forall>j. 1 \<le> j \<and> j < device_address d \<longrightarrow> j \<in> device_address ` set (devices c)"
proof -
  let ?res = "map device_address (devices c)"
  obtain a where f: "find (\<lambda>i. i \<notin> set ?res) (py_range 1 MAX_ADDRESS) = Some a"
    and d: "d = set_state (DeviceEntity_init new_id a serial mpl False False False) STATE_CONNECTED 0"
    using assms by (auto simp: create_device_def Let_def split: option.splits)
  have addr: "device_address d = a"
    by (simp add: d set_state_def DeviceEntity_init_def)
  from f obtain i where i: "i < length (py_range 1 MAX_ADDRESS)"
    "py_range 1 MAX_ADDRESS ! i = a" "a \<notin> set ?res"
    "\<forall>j<i. py_range 1 MAX_ADDRESS ! j \<in> set ?res"
    by (auto simp: find_Some_iff)
  from i(1,2) have "a \<in> set (py_range 1 MAX_ADDRESS)"
    by (metis nth_mem)
  then show "device_address d \<in> {1..<MAX_ADDRESS}"
    by (simp add: addr py_range_set)
  show "device_address d \<notin> device_address ` set (devices c)"
    using i(3) by (simp add: addr)
  have nth: "\<And>j. j < length (py_range 1 MAX_ADDRESS) \<Longrightarrow> py_range 1 MAX_ADDRESS ! j = 1 + int j"
    by (simp add: py_range_def)
  have ai: "a = 1 + int i" using i(1,2) nth by simp
  show "\<forall>j. 1 \<le> j \<and> j < device_address d \<longrightarrow> j \<in> device_address ` set (devices c)"
  proof (intro allI impI)
    fix j assume j: "1 \<le> j \<and> j < device_address d"
    then have "nat (j - 1) < i" using ai addr by linarith
    then have "py_range 1 MAX_ADDRESS ! nat (j - 1) \<in> set ?res" using i(4) by blast
    moreover have "py_range 1 MAX_ADDRESS ! nat (j - 1) = j"
      using nth [of "nat (j - 1)"] \<open>nat (j - 1) < i\<close> i(1) j by simp
    ultimately show "j \<in> device_address ` set (devices c)" by simp
  qed
qed

lemma registry_1_252_addresses:
  "device_address ` set (devices registry_1_252) = {1..252}"
  by (auto simp: registry_1_252_def DeviceEntity_init_def image_iff)

text \<open>
  C1. \<^verbatim>\<open>create_device\<close> is claimed to hand out the lowest free bus address in 1..253 and to
  fail exactly when all of 1..253 are taken. The scan is \<^verbatim>\<open>range(1, self.__MAX_ADDRESS)\<close>
  with \<^verbatim>\<open>__MAX_ADDRESS = 253\<close>, which stops at 252: with the addresses 1..252 taken and
  253 free, the call raises instead of assigning 253.
\<close>

theorem create_device_skips_253:
  "253 \<notin> device_address ` set (devices registry_1_252)
   \<and> create_device registry_1_252 1000 ''AABBCC'' 80 = Inl InvalidStateException"
proof -
  have "{1..<MAX_ADDRESS} \<subseteq> device_address ` set (devices registry_1_252)"
    by (simp add: registry_1_252_addresses MAX_ADDRESS_def) auto
  then obtain e where "create_device registry_1_252 1000 ''AABBCC'' 80 = Inl e"
    using create_device_fails_iff by blast
  then show ?thesis
    by (cases e) (auto simp: registry_1_252_addresses create_device_def Let_def split: option.splits)
qed

section \<open>Liveness: lost detection and recovery\<close>

lemma find_devices_store:
  "device_id d \<in> device_id ` set ds \<Longrightarrow>
   find (\<lambda>x. device_id x = device_id d) (devices_store ds d) = Some d"
  unfolding devices_store_def by (induction ds) auto

lemma get_device_by_id_update:
  "device_id d \<in> device_id ` set (devices c) \<Longrightarrow>
   get_device_by_id (update_device c d) (device_id d) = Some d"
  by (simp add: get_device_by_id_def update_device_def find_devices_store)





text \<open>
  C3. A PONG from an address the registry resolves to a device puts that device in state
  UNKNOWN with lost-since 0, no expected reply and no attempts, stores it and propagates the
  state upstream; the next \<^verbatim>\<open>CheckingHandler.handle\<close> step for it sends GET_STATE
  (\<^verbatim>\<open>[0x19, 0x00]\<close>, waiting time 1) to its address.
\<close>

theorem pong_marks_alive:
  assumes known: "get_device_by_address c sender_address = Some device"
  shows "\<exists>c' device'.
       CheckingHandler_receive c FB_PACKET_PONG sender_address payload payload_length = Inr c'
     \<and> get_device_by_id c' (device_id device) = Some device'
     \<and> device_state device' = STATE_UNKNOWN
     \<and> lost_timestamp device' = 0
     \<and> waiting_for_packet device' = None
     \<and> attempts device' = 0
     \<and> container c' = container c @
          [Add_or_edit_device (device_id device) (serial_number device) STATE_UNKNOWN]
     \<and> sent (snd (CheckingHandler_handle c' device' env)) =
          sent c' @ [(device_address device, [0x19, 0x00], 1)]"
proof -
  let ?d = "set_alive device"
  have id: "device_id ?d = device_id device"
    by (simp add: set_alive_def set_state_def reset_communication_def)
  have mem: "device_id device \<in> device_id ` set (devices c)"
    using find_SomeD [OF known [unfolded get_device_by_address_def]] by blast
  have look: "get_device_by_id (update_device c ?d) (device_id device) = Some ?d"
    using get_device_by_id_update [of ?d c] mem id by simp
  have st: "device_state ?d = STATE_UNKNOWN" "lost_timestamp ?d = 0"
    "waiting_for_packet ?d = None" "attempts ?d = 0" "serial_number ?d = serial_number device"
    "device_address ?d = device_address device"
    by (simp_all add: set_alive_def set_state_def reset_communication_def)
  let ?c = "propagate_device_state (update_device c ?d) ?d"
  have rcv: "CheckingHandler_receive c FB_PACKET_PONG sender_address payload payload_length = Inr ?c"
    using known by (simp add: CheckingHandler_receive_def pong_receiver_def Let_def)
  have look': "get_device_by_id ?c (device_id device) = Some ?d"
    using look by (simp add: get_device_by_id_def propagate_device_state_def)
  have cont: "container ?c = container c @
          [Add_or_edit_device (device_id device) (serial_number device) STATE_UNKNOWN]"
    by (simp add: propagate_device_state_def update_device_def st id)
  have nxt: "sent (snd (CheckingHandler_handle ?c ?d env)) =
          sent ?c @ [(device_address device, [0x19, 0x00], 1)]"
    by (simp add: CheckingHandler_handle_def st is_lost_def MAX_TRANSMIT_ATTEMPTS_def
        send_get_device_state_handler_def Let_def update_device_def
        set_last_packet_timestamp_def set_waiting_for_packet_def increment_attempts_def
        FB_CONTENT_TERMINATOR_def)
  show ?thesis
    using rcv look' st(1-4) cont nxt by blast
qed

theorem pong_marks_alive_witness:
  "\<exists>c' device'.
       CheckingHandler_receive registry_9 FB_PACKET_PONG (Some 9) [0x15, 0x00] 2 = Inr c'
     \<and> get_device_by_id c' (device_id device_9) = Some device'
     \<and> device_state device' = STATE_UNKNOWN
     \<and> lost_timestamp device' = 0
     \<and> waiting_for_packet device' = None
     \<and> attempts device' = 0
     \<and> container c' = container registry_9 @
          [Add_or_edit_device (device_id device_9) (serial_number device_9) STATE_UNKNOWN]
     \<and> sent (snd (CheckingHandler_handle c' device' env_1000)) =
          sent c' @ [(device_address device_9, [0x19, 0x00], 1)]"
  by (rule pong_marks_alive)
    (simp add: get_device_by_address_def device_9_def registry_9_def DeviceEntity_init_def)

text \<open>
  C9. A received SET_STATE packet changes nothing: whatever the sender address, the payload
  and its length, the connector after \<^verbatim>\<open>CheckingHandler.receive\<close> is the connector before
  it (registry, upstream calls and sent frames alike).
\<close>

theorem set_state_packet_ignored:
  "CheckingHandler_receive c FB_PACKET_SET_STATE sender_address payload payload_length = Inr c"
  by (simp add: CheckingHandler_receive_def set_state_receiver_def split: option.splits)

section \<open>Typed values: decoding and encoding\<close>













section \<open>Writing\<close>

text \<open>
  C6. A write to a register that is neither a DO nor an AO is dropped: the connector after
  \<^verbatim>\<open>write_value_to_register\<close> is the connector before it, so no frame is sent and no
  device or register changes.
\<close>

theorem write_to_input_register_dropped:
  assumes "register_type register \<noteq> FB_REGISTER_DO" "register_type register \<noteq> FB_REGISTER_AO"
  shows "write_value_to_register codec c register write_value env = Inr c"
  using assms by (simp add: write_value_to_register_def Let_def split: option.splits)

lemma registry_7_registers:
  "registers registry_7 =
     [register_di 0, register_di 1, register_di 2, register_di 3, register_di 4, register_di 5,
      register_di 6, register_di 7, register_di 8, register_di 9, register_do]"
  by (simp add: registry_7_def)

theorem write_to_input_register_dropped_witness:
  "register_type (register_di 0) \<noteq> FB_REGISTER_DO
   \<and> register_type (register_di 0) \<noteq> FB_REGISTER_AO
   \<and> write_value_to_register plain_codec registry_7 (register_di 0) (PyBool True) env_1000
       = Inr registry_7"
  using write_to_input_register_dropped [of "register_di 0" plain_codec registry_7 "PyBool True" env_1000]
  by (simp add: register_di_def RegisterEntity_init_def set_data_type_def)

lemma publish_loop_no_match:
  "property_id \<notin> register_id ` set rs \<Longrightarrow> publish_loop codec c rs property_id expected env = Inr c"
  by (induction rs) auto

lemma publish_loop_single:
  assumes "register \<in> set rs" "distinct (map register_id rs)"
  shows "publish_loop codec c rs (register_id register) expected env =
         write_value_to_register codec c register (toggle_expected register expected) env"
  using assms
proof (induction rs)
  case Nil
  then show ?case by simp
next
  case (Cons x rs)
  show ?case
  proof (cases "x = register")
    case True
    then have "register_id register \<notin> register_id ` set rs" using Cons.prems by auto
    then show ?thesis
      using True by (simp add: Let_def publish_loop_no_match split: sum.splits)
  next
    case False
    then have "register \<in> set rs" using Cons.prems by simp
    moreover then have "register_id x \<noteq> register_id register" using Cons.prems by auto
    ultimately show ?thesis using Cons by simp
  qed
qed

text \<open>
  C10. \<^verbatim>\<open>publish(property_id, "toggle")\<close> for a DO register of the registry writes
  \<^verbatim>\<open>False\<close> exactly when the stored value is the boolean \<^verbatim>\<open>True\<close> and \<^verbatim>\<open>True\<close> for every
  other stored value; a register never set (stored \<^verbatim>\<open>None\<close>) is commanded to \<^verbatim>\<open>True\<close>.
  Register ids are the keys of the registry dictionary, hence distinct.
\<close>

theorem publish_toggle:
  assumes "register \<in> set (registers c)"
    and "distinct (map register_id (registers c))"
    and "register_type register = FB_REGISTER_DO"
  shows "publish codec c (register_id register) (PyStr ''toggle'') env =
           write_value_to_register codec c register
             (PyBool (register_value register \<noteq> PyBool True)) env
       \<and> (register_value register = PyNone \<longrightarrow>
           publish codec c (register_id register) (PyStr ''toggle'') env =
             write_value_to_register codec c register (PyBool True) env)"
  using assms by (auto simp: publish_def publish_loop_single toggle_expected_def)

theorem publish_toggle_witness:
  "register_value register_do = PyNone
   \<and> publish plain_codec registry_7 (register_id register_do) (PyStr ''toggle'') env_1000 =
       write_value_to_register plain_codec registry_7 register_do (PyBool True) env_1000
   \<and> (\<exists>c'. publish plain_codec registry_7 200 (PyStr ''toggle'') env_1000 = Inr c'
         \<and> sent c' = [(7, [0x07, 0x02, 0x00, 0x00, 0xFF, 0x00, 0x00], 1 / 10)])"
proof -
  have m: "register_do \<in> set (registers registry_7)"
    by (simp add: registry_7_registers)
  have d: "distinct (map register_id (registers registry_7))"
    by (simp add: registry_7_registers register_di_def register_do_def RegisterEntity_init_def
        set_data_type_def)
  have t: "register_type register_do = FB_REGISTER_DO"
    by (simp add: register_do_def RegisterEntity_init_def set_data_type_def)
  have v: "register_value register_do = PyNone"
    by (simp add: register_do_def RegisterEntity_init_def set_data_type_def)
  have i: "register_id register_do = 200"
    by (simp add: register_do_def RegisterEntity_init_def set_data_type_def)
  have w: "\<exists>c'. write_value_to_register plain_codec registry_7 register_do (PyBool True) env_1000 = Inr c'
         \<and> sent c' = [(7, [0x07, 0x02, 0x00, 0x00, 0xFF, 0x00, 0x00], 1 / 10)]"
    by (simp add: write_value_to_register_def get_device_by_id_def registry_7_def device_7_def
        register_do_def RegisterEntity_init_def set_data_type_def DeviceEntity_init_def
        is_ready_def Let_def update_device_def env_1000_def FB_CONTENT_TERMINATOR_def
        set_last_packet_timestamp_def set_waiting_for_packet_def increment_attempts_def
        WRITING_PACKET_RESPONSE_DELAY_def)
  from publish_toggle [OF m d t, of plain_codec env_1000] v w i show ?thesis
    by simp
qed

section \<open>Pairing: settings structure page size\<close>

text \<open>
  C7. The request is claimed to ask for \<^verbatim>\<open>(L - 5) // 12\<close> device-setting descriptors per
  packet. The handler computes \<^verbatim>\<open>round((L - 5) / 12)\<close>: with a maximum packet length of 28
  and three device settings the floor is 1, and the frame sent asks for 2 descriptors, which
  is 24 bytes for the 23 that are left.
\<close>

theorem settings_page_rounds_up:
  "(max_packet_length device_28 - 5) div 12 = 1
   \<and> (\<exists>d' c'. send_provide_settings_structure_handler registry_28 device_28 env_1000 = Inr (d', c')
        \<and> sent c' = [(5, [0x01, 0x0C, 0x01, 0x00, 0x00, 0x00, 0x02, 0x00], 2)])"
  by (simp add: send_provide_settings_structure_handler_def device_28_def registry_28_def
      DeviceEntity_init_def get_settings_by_type_def device_setting_def py_round_div_def Let_def
      send_data_to_device_def env_1000_def update_device_def set_last_packet_timestamp_def
      set_waiting_for_packet_def increment_attempts_def FB_CONTENT_TERMINATOR_def
      PAIRING_PACKET_RESPONSE_DELAY_def)

section \<open>Transport: waiting for the acknowledgement\<close>






section \<open>Reading: the bits of a digital reply\<close>

declare py_bin.simps [simp del] py_str_of_nat.simps [simp del]

lemma py_digit_char_inv: "d < 10 \<Longrightarrow> py_digit (py_digit_char d) = d"
  by (simp add: py_digit_def py_digit_char_def)

lemma py_digit_char_0: "py_digit_char 0 = CHR ''0''"
proof -
  have "of_char (py_digit_char 0) = (of_char CHR ''0'' :: nat)"
    by (simp add: py_digit_char_def)
  then show ?thesis by (simp only: of_char_eq_iff)
qed

lemma py_int_of_str_snoc: "py_int_of_str (s @ [ch]) = 10 * py_int_of_str s + py_digit ch"
  by (simp add: py_int_of_str_def)

lemma py_str_of_nat_step:
  "1 \<le> k \<Longrightarrow> d < 10 \<Longrightarrow> py_str_of_nat (10 * k + d) = py_str_of_nat k @ [py_digit_char d]"
  by (subst py_str_of_nat.simps) simp

lemma py_int_of_bin_pos: "1 \<le> n \<Longrightarrow> 1 \<le> py_int_of_str (py_bin n)"
proof (induction n rule: py_bin.induct)
  case (1 n)
  show ?case
  proof (cases "n < 2")
    case True
    with "1.prems" have "n = 1" by simp
    then show ?thesis
      by (simp add: py_bin.simps [of "Suc 0"] py_int_of_str_def py_digit_char_inv)
  next
    case False
    then have "1 \<le> py_int_of_str (py_bin (n div 2))" using "1.IH" by simp
    then show ?thesis
      using False by (subst py_bin.simps) (simp add: py_int_of_str_snoc)
  qed
qed

lemma py_str_of_int_of_bin: "py_str_of_nat (py_int_of_str (py_bin n)) = py_bin n"
proof (induction n rule: py_bin.induct)
  case (1 n)
  show ?case
  proof (cases "n < 2")
    case True
    then have "py_int_of_str (py_bin n) = n"
      by (simp add: py_bin.simps [of n] py_int_of_str_def py_digit_char_inv)
    then show ?thesis
      using True by (simp add: py_bin.simps [of n] py_str_of_nat.simps [of n])
  next
    case False
    then have pos: "1 \<le> py_int_of_str (py_bin (n div 2))"
      by (intro py_int_of_bin_pos) simp
    have "py_int_of_str (py_bin n) = 10 * py_int_of_str (py_bin (n div 2)) + n mod 2"
      using False by (simp add: py_bin.simps [of n] py_int_of_str_snoc py_digit_char_inv)
    then have "py_str_of_nat (py_int_of_str (py_bin n)) =
        py_str_of_nat (py_int_of_str (py_bin (n div 2))) @ [py_digit_char (n mod 2)]"
      using pos by (simp add: py_str_of_nat_step)
    also have "\<dots> = py_bin n"
      using False "1.IH" by (simp add: py_bin.simps [of n])
    finally show ?thesis .
  qed
qed

lemma py_bin_length: "n < 2 ^ k \<Longrightarrow> 1 \<le> k \<Longrightarrow> length (py_bin n) \<le> k"
proof (induction n arbitrary: k rule: py_bin.induct)
  case (1 n)
  show ?case
  proof (cases "n < 2")
    case True
    then show ?thesis using "1.prems" by (simp add: py_bin.simps [of n])
  next
    case False
    with "1.prems" obtain k' where k: "k = Suc k'" by (cases k) auto
    have "1 \<le> k'" using False "1.prems" k by (cases k') auto
    moreover have "n div 2 < 2 ^ k'" using "1.prems" k by auto
    ultimately have "length (py_bin (n div 2)) \<le> k'" using "1.IH" False by simp
    then show ?thesis using False k by (simp add: py_bin.simps [of n])
  qed
qed

lemma rev_padded_bin_nth:
  "length (py_bin n) \<le> k \<Longrightarrow> i < k \<Longrightarrow>
   rev (replicate (k - length (py_bin n)) (CHR ''0'') @ py_bin n) ! i =
     py_digit_char ((n div 2 ^ i) mod 2)"
proof (induction n arbitrary: k i rule: py_bin.induct)
  case (1 n)
  show ?case
  proof (cases "n < 2")
    case True
    have "0 < j \<Longrightarrow> n div 2 ^ j = 0" for j
    proof -
      assume "0 < j"
      then have "(2::nat) ^ 1 \<le> 2 ^ j" by (intro power_increasing) simp_all
      then show "n div 2 ^ j = 0" using True by simp
    qed
    then show ?thesis
      using "1.prems" True
      by (cases i) (simp_all add: py_bin.simps [of n] nth_append py_digit_char_0 del: power_Suc)
  next
    case False
    let ?s = "py_bin (n div 2)"
    have s: "py_bin n = ?s @ [py_digit_char (n mod 2)]"
      using False by (simp add: py_bin.simps [of n])
    from "1.prems" s obtain k' where k: "k = Suc k'" by (cases k) auto
    have len: "length ?s \<le> k'" using "1.prems" s k by simp
    have shape: "rev (replicate (k - length (py_bin n)) (CHR ''0'') @ py_bin n) =
        py_digit_char (n mod 2) # rev (replicate (k' - length ?s) (CHR ''0'') @ ?s)"
      by (simp add: s k)
    show ?thesis
    proof (cases i)
      case 0
      show ?thesis unfolding shape 0 by simp
    next
      case (Suc j)
      then have "j < k'" using "1.prems" k by simp
      then have "rev (replicate (k' - length ?s) (CHR ''0'') @ ?s) ! j =
          py_digit_char (((n div 2) div 2 ^ j) mod 2)"
        using "1.IH" [OF False len] by simp
      then show ?thesis
        unfolding shape Suc by (simp add: div_mult2_eq)
    qed
  qed
qed

lemma data_byte_nth:
  assumes "i < 8"
  shows "data_byte b ! i = py_digit_char ((unat b div 2 ^ i) mod 2)"
proof -
  have "unat b < 2 ^ 8" using unsigned_less [of b, where 'a = nat] by simp
  then have "length (py_bin (unat b)) \<le> 8" by (rule py_bin_length) simp
  then show ?thesis
    using assms
    by (simp add: data_byte_def format_0_8d_def Let_def py_str_of_int_of_bin rev_padded_bin_nth
        del: rev_append rev_replicate)
qed

lemma data_byte_length: "length (data_byte b) = 8"
proof -
  have "unat b < 2 ^ 8" using unsigned_less [of b, where 'a = nat] by simp
  then have "length (py_bin (unat b)) \<le> 8" by (rule py_bin_length) simp
  then show ?thesis
    by (simp add: data_byte_def format_0_8d_def Let_def py_str_of_int_of_bin)
qed

lemma data_byte_bit:
  assumes "i < 8"
  shows "(py_digit (data_byte b ! i) AND 1 \<noteq> 0) = bit b i"
proof -
  have "(unat b div 2 ^ i) mod 2 < 10" by (rule less_trans [of _ 2]) simp_all
  then have "py_digit (data_byte b ! i) = (unat b div 2 ^ i) mod 2"
    by (simp add: data_byte_nth [OF assms] py_digit_char_inv)
  moreover have "bit b i = odd (unat b div 2 ^ i)"
  proof -
    have "bit (unat b) i = bit b i" by (simp add: bit_unsigned_iff)
    then show ?thesis by (simp only: bit_iff_odd [of "unat b" i])
  qed
  ultimately show ?thesis
    by (simp add: and_one_eq mod2_eq_if)
qed


declare digital_loop.simps [simp del]

lemma find_map_same:
  "(\<forall>x\<in>set xs. P (f x) = P x) \<Longrightarrow> find P (map f xs) = map_option f (find P xs)"
  by (induction xs) auto

lemma update_register_value_lookup:
  assumes dist: "distinct (map register_id (registers c))"
    and found: "get_register_by_address c d rt a0 = Some r"
  shows "get_register_by_address (update_register_value c r v) d rt a =
           (if a = a0 then Some (r\<lparr> register_value := v \<rparr>) else get_register_by_address c d rt a)"
proof -
  let ?P = "\<lambda>a x. register_device_id x = device_id d \<and> register_address x = a \<and> register_type x = rt"
  let ?f = "\<lambda>x. if register_id x = register_id r then set_value r v else x"
  from find_SomeD [OF found [unfolded get_register_by_address_def]]
  have r: "?P a0 r" "r \<in> set (registers c)" by simp_all
  have same: "x = r" if "x \<in> set (registers c)" "register_id x = register_id r" for x
    using that r(2) dist by (meson distinct_map inj_onD)
  have keep: "\<forall>x\<in>set (registers c). ?P a (?f x) = ?P a x"
    using same r(1) by (auto simp: set_value_def)
  have regs: "registers (update_register_value c r v) = map ?f (registers c)"
    using r(2) by (simp add: update_register_value_def Let_def)
  have "get_register_by_address (update_register_value c r v) d rt a =
          map_option ?f (find (?P a) (registers c))"
    unfolding get_register_by_address_def regs by (rule find_map_same [OF keep])
  also have "\<dots> = (if a = a0 then Some (r\<lparr> register_value := v \<rparr>)
                    else get_register_by_address c d rt a)"
  proof (cases "a = a0")
    case True
    then show ?thesis
      using found by (simp add: get_register_by_address_def set_value_def)
  next
    case False
    show ?thesis
    proof (cases "find (?P a) (registers c)")
      case None
      then show ?thesis using False by (simp add: get_register_by_address_def)
    next
      case (Some x)
      from find_SomeD [OF Some] have "register_address x = a" "x \<in> set (registers c)" by simp_all
      then have "x \<noteq> r" using False r(1) by auto
      then have "register_id x \<noteq> register_id r" using same \<open>x \<in> set (registers c)\<close> by blast
      then show ?thesis using Some False by (simp add: get_register_by_address_def)
    qed
  qed
  finally show ?thesis .
qed

lemma update_register_value_ids:
  "map register_id (registers (update_register_value c r v)) = map register_id (registers c)"
  by (simp add: update_register_value_def Let_def set_value_def comp_def)

lemma bits_loop_lookup:
  assumes "distinct (map register_id (registers c))"
    and "bits_loop c d rt cnt db ixs a = (c', a')"
  shows "distinct (map register_id (registers c'))
       \<and> a \<le> a' \<and> a' \<le> a + length ixs \<and> (ixs \<noteq> [] \<longrightarrow> a < a')
       \<and> (a' < a + length ixs \<longrightarrow> cnt \<le> a')
       \<and> (\<forall>x. get_register_by_address c' d rt x =
             (if a \<le> x \<and> x < a'
              then map_option (\<lambda>r. r\<lparr> register_value := PyBool (py_digit (db ! (ixs ! (x - a))) AND 1 \<noteq> 0) \<rparr>)
                     (get_register_by_address c d rt x)
              else get_register_by_address c d rt x))"
  using assms
proof (induction ixs arbitrary: c a)
  case Nil
  then show ?case by auto
next
  case (Cons i ixs)
  let ?v = "PyBool (py_digit (db ! i) AND 1 \<noteq> 0)"
  let ?c1 = "case get_register_by_address c d rt a of None \<Rightarrow> c
             | Some register \<Rightarrow> update_register_value c register ?v"
  have dist1: "distinct (map register_id (registers ?c1))"
    using Cons.prems(1) by (simp add: update_register_value_ids split: option.splits)
  have look1: "get_register_by_address ?c1 d rt x =
      (if x = a then map_option (\<lambda>r. r\<lparr> register_value := ?v \<rparr>) (get_register_by_address c d rt a)
       else get_register_by_address c d rt x)" for x
    using update_register_value_lookup [OF Cons.prems(1), of d rt a _ ?v x]
    by (auto split: option.splits)
  show ?case
  proof (cases "a + 1 \<ge> cnt")
    case True
    then have res: "c' = ?c1" "a' = a + 1"
      using Cons.prems(2) by (simp_all add: Let_def)
    have "\<And>x. (a \<le> x \<and> x < a + 1) = (x = a)" by auto
    then show ?thesis
      using dist1 look1 True by (simp add: res)
  next
    case False
    then have rec: "bits_loop ?c1 d rt cnt db ixs (a + 1) = (c', a')"
      using Cons.prems(2) by (simp add: Let_def)
    note ih = Cons.IH [OF dist1 rec]
    have "get_register_by_address c' d rt x =
             (if a \<le> x \<and> x < a'
              then map_option (\<lambda>r. r\<lparr> register_value := PyBool (py_digit (db ! ((i # ixs) ! (x - a))) AND 1 \<noteq> 0) \<rparr>)
                     (get_register_by_address c d rt x)
              else get_register_by_address c d rt x)" for x
    proof (cases "x = a")
      case True
      then show ?thesis using ih look1 [of a] by simp
    next
      case False
      have "(i # ixs) ! (x - a) = ixs ! (x - (a + 1))" if "a \<le> x"
      proof -
        have "x - a = Suc (x - (a + 1))" using that False by arith
        then show ?thesis by (simp only: nth_Cons_Suc)
      qed
      then show ?thesis using ih look1 [of x] False by auto
    qed
    then show ?thesis using ih by auto
  qed
qed

lemma digital_loop_lookup:
  assumes "distinct (map register_id (registers c))"
    and "payload_length \<le> int (length payload)"
  shows "\<exists>c'. digital_loop c d rt cnt payload payload_length pos a = Inr c'
       \<and> distinct (map register_id (registers c'))
       \<and> (\<forall>x. x < a \<longrightarrow> get_register_by_address c' d rt x = get_register_by_address c d rt x)
       \<and> (\<forall>k i. int (pos + k) < payload_length - 1 \<and> i < 8 \<and> a + 8 * k + i < cnt \<longrightarrow>
            get_register_by_address c' d rt (a + 8 * k + i) =
              map_option (\<lambda>r. r\<lparr> register_value := PyBool (bit (payload ! (pos + k)) i) \<rparr>)
                (get_register_by_address c d rt (a + 8 * k + i)))"
  using assms
proof (induction c d rt cnt payload payload_length pos a rule: digital_loop.induct)
  case (1 c d rt cnt payload payload_length pos a)
  show ?case
  proof (cases "int pos < payload_length - 1")
    case False
    then show ?thesis
      using "1.prems" by (subst digital_loop.simps) simp
  next
    case True
    then have inr: "py_index payload pos = Inr (payload ! pos)"
      using "1.prems"(2) by (simp add: py_index_def)
    obtain c1 a1 where bl: "bits_loop c d rt cnt (data_byte (payload ! pos)) [0..<8] a = (c1, a1)"
      by (cases "bits_loop c d rt cnt (data_byte (payload ! pos)) [0..<8] a")
    note b = bits_loop_lookup [OF "1.prems"(1) bl]
    from b have dist1: "distinct (map register_id (registers c1))" by blast
    from b have bounds: "a < a1" "a1 \<le> a + 8" "a1 < a + 8 \<longrightarrow> cnt \<le> a1" by simp_all
    from b have all1: "\<forall>x. get_register_by_address c1 d rt x =
             (if a \<le> x \<and> x < a1
              then map_option (\<lambda>r. r\<lparr> register_value :=
                       PyBool (py_digit (data_byte (payload ! pos) ! ([0..<8] ! (x - a))) AND 1 \<noteq> 0) \<rparr>)
                     (get_register_by_address c d rt x)
              else get_register_by_address c d rt x)"
      by blast
    have look1: "get_register_by_address c1 d rt x =
             (if a \<le> x \<and> x < a1
              then map_option (\<lambda>r. r\<lparr> register_value := PyBool (bit (payload ! pos) (x - a)) \<rparr>)
                     (get_register_by_address c d rt x)
              else get_register_by_address c d rt x)" for x
    proof (cases "a \<le> x \<and> x < a1")
      case False
      then show ?thesis using all1 [THEN spec, of x] by (simp only: if_False)
    next
      case True
      then have j: "x - a < 8" using bounds(2) by arith
      then have "[0..<8] ! (x - a) = x - a" by simp
      then have "(py_digit (data_byte (payload ! pos) ! ([0..<8] ! (x - a))) AND 1 \<noteq> 0)
          = bit (payload ! pos) (x - a)"
        using data_byte_bit [OF j, of "payload ! pos"] by (simp only:)
      then show ?thesis using all1 [THEN spec, of x] by (simp only:)
    qed
    from "1.IH" [OF True inr bl [symmetric] refl dist1 "1.prems"(2)]
    obtain c' where rec: "digital_loop c1 d rt cnt payload payload_length (pos + 1) a1 = Inr c'"
      and dist': "distinct (map register_id (registers c'))"
      and low: "\<And>x. x < a1 \<Longrightarrow> get_register_by_address c' d rt x = get_register_by_address c1 d rt x"
      and high: "\<And>k i. int (pos + 1 + k) < payload_length - 1 \<Longrightarrow> i < 8 \<Longrightarrow> a1 + 8 * k + i < cnt \<Longrightarrow>
            get_register_by_address c' d rt (a1 + 8 * k + i) =
              map_option (\<lambda>r. r\<lparr> register_value := PyBool (bit (payload ! (pos + 1 + k)) i) \<rparr>)
                (get_register_by_address c1 d rt (a1 + 8 * k + i))"
      by blast
    have run: "digital_loop c d rt cnt payload payload_length pos a = Inr c'"
      using True inr bl rec by (subst digital_loop.simps) simp
    have g1: "get_register_by_address c' d rt x = get_register_by_address c d rt x" if "x < a" for x
      using low [of x] look1 [of x] that bounds(1) by simp
    have g2: "get_register_by_address c' d rt (a + 8 * k + i) =
              map_option (\<lambda>r. r\<lparr> register_value := PyBool (bit (payload ! (pos + k)) i) \<rparr>)
                (get_register_by_address c d rt (a + 8 * k + i))"
      if kk: "int (pos + k) < payload_length - 1" "i < 8" "a + 8 * k + i < cnt" for k i
    proof (cases k)
      case 0
      have "a + i < a1"
      proof (cases "a1 < a + 8")
        case True
        then show ?thesis using bounds(3) kk(3) 0 by simp
      next
        case False
        then show ?thesis using kk(2) by simp
      qed
      then show ?thesis
        using low [of "a + i"] look1 [of "a + i"] 0 by simp
    next
      case (Suc k')
      have a1: "a1 = a + 8"
      proof (rule ccontr)
        assume "a1 \<noteq> a + 8"
        then have "cnt \<le> a1" using bounds by simp
        then show False using kk(3) Suc bounds(2) by simp
      qed
      have "get_register_by_address c' d rt (a1 + 8 * k' + i) =
              map_option (\<lambda>r. r\<lparr> register_value := PyBool (bit (payload ! (pos + 1 + k')) i) \<rparr>)
                (get_register_by_address c1 d rt (a1 + 8 * k' + i))"
        using kk Suc a1 by (intro high) simp_all
      moreover have "get_register_by_address c1 d rt (a1 + 8 * k' + i) =
          get_register_by_address c d rt (a1 + 8 * k' + i)"
        using look1 [of "a1 + 8 * k' + i"] by simp
      moreover have "a1 + 8 * k' + i = a + 8 * k + i" "pos + 1 + k' = pos + k"
        using a1 Suc by simp_all
      ultimately show ?thesis by (simp only:)
    qed
    show ?thesis using run dist' g1 g2 by blast
  qed
qed


lemma update_device_registers: "registers (update_device c d) = registers c"
  by (simp add: update_device_def)

text \<open>
  C4. In the reply to a multiple-register read of a digital register type (DI or DO) with
  start address \<open>start\<close>, for every data byte \<open>k\<close> of the payload (the bytes from position 5
  up to the terminator) and every bit index \<open>i < 8\<close> with \<open>start + 8 * k + i\<close> below the
  device's count of registers of that type, the register the registry resolves that address
  to leaves the receiver with the value of bit \<open>i\<close> of that byte, least significant bit
  first, and is otherwise as before; an address the registry resolves to no register stays
  so. The payload length handed over is the length of the payload, and register ids are the
  keys of the registry dictionary, hence distinct.
\<close>

theorem digital_read_sets_bits:
  assumes dev: "get_device_by_address c sender_address = Some device"
    and len: "payload_length = int (length payload)" "5 \<le> length payload"
    and rt: "RegistersTypes_of (uint (payload ! 1)) = Some rt"
      "rt = FB_REGISTER_DI \<or> rt = FB_REGISTER_DO"
    and start: "start = nat (push_bit 8 (uint (payload ! 2)) OR uint (payload ! 3))"
    and dist: "distinct (map register_id (registers c))"
    and k: "5 + k < length payload - 1"
    and i: "i < 8"
    and below: "start + 8 * k + i < length (get_registers_by_type c device rt)"
  shows "\<exists>c'. ReadingHandler_receive codec c FB_PACKET_READ_MULTIPLE_REGISTERS sender_address
                payload payload_length = Inr c'
     \<and> get_register_by_address c' device rt (start + 8 * k + i) =
         map_option (\<lambda>r. r\<lparr> register_value := PyBool (bit (payload ! (5 + k)) i) \<rparr>)
           (get_register_by_address c device rt (start + 8 * k + i))"
proof -
  let ?cnt = "length (get_registers_by_type c device rt)"
  have le: "payload_length \<le> int (length payload)" using len by simp
  from digital_loop_lookup [OF dist le, of device rt ?cnt 5 start]
  obtain c1 where run: "digital_loop c device rt ?cnt payload payload_length 5 start = Inr c1"
    and bits: "\<And>k i. int (5 + k) < payload_length - 1 \<Longrightarrow> i < 8 \<Longrightarrow> start + 8 * k + i < ?cnt \<Longrightarrow>
            get_register_by_address c1 device rt (start + 8 * k + i) =
              map_option (\<lambda>r. r\<lparr> register_value := PyBool (bit (payload ! (5 + k)) i) \<rparr>)
                (get_register_by_address c device rt (start + 8 * k + i))"
    by blast
  have idx: "py_index payload (Suc 0) = Inr (payload ! 1)" "py_index payload 2 = Inr (payload ! 2)"
    "py_index payload 3 = Inr (payload ! 3)" "py_index payload 4 = Inr (payload ! 4)"
    using len(2) by (simp_all add: py_index_def)
  have rcv: "ReadingHandler_receive codec c FB_PACKET_READ_MULTIPLE_REGISTERS sender_address
                payload payload_length = Inr (update_device c1 (reset_communication device))"
    using dev rt run
    by (auto simp: ReadingHandler_receive_def read_multiple_registers_receiver_def idx Let_def
        start)
  have "int (5 + k) < payload_length - 1" using k len by simp
  from bits [OF this i below]
  have "get_register_by_address (update_device c1 (reset_communication device)) device rt
          (start + 8 * k + i) =
         map_option (\<lambda>r. r\<lparr> register_value := PyBool (bit (payload ! (5 + k)) i) \<rparr>)
           (get_register_by_address c device rt (start + 8 * k + i))"
    by (simp add: get_register_by_address_def update_device_registers)
  with rcv show ?thesis by blast
qed

lemma device_7_found: "get_device_by_address registry_7 (Some 7) = Some device_7"
  by (simp add: get_device_by_address_def registry_7_def device_7_def DeviceEntity_init_def)

lemma registry_7_distinct: "distinct (map register_id (registers registry_7))"
  by (simp add: registry_7_registers register_di_def register_do_def RegisterEntity_init_def
      set_data_type_def)

lemma registry_7_count:
  "length (get_registers_by_type registry_7 device_7 FB_REGISTER_DI) = 10"
  by (simp add: get_registers_by_type_def registry_7_registers register_di_def register_do_def
      RegisterEntity_init_def set_data_type_def device_7_def DeviceEntity_init_def)

lemma registry_7_lookup:
  assumes "a < 10"
  shows "get_register_by_address registry_7 device_7 FB_REGISTER_DI a = Some (register_di a)"
proof -
  have addr: "register_address (register_di j) = j"
    "register_device_id (register_di j) = device_id device_7"
    "register_type (register_di j) = FB_REGISTER_DI" for j
    by (simp_all add: register_di_def RegisterEntity_init_def set_data_type_def device_7_def
        DeviceEntity_init_def)
  from assms have "a = 0 \<or> a = 1 \<or> a = 2 \<or> a = 3 \<or> a = 4 \<or> a = 5 \<or> a = 6
      \<or> a = 7 \<or> a = 8 \<or> a = 9"
    by arith
  then show ?thesis
    by (elim disjE) (simp_all add: get_register_by_address_def registry_7_registers addr)
qed

text \<open>
  The reply \<^verbatim>\<open>[0x05, 0x01, 0x00, 0x00, 0x02, 0b10100101, 0b00000011, 0x00]\<close> from the device
  with ten digital inputs: after it the addresses 0, 2, 5 and 7 hold true and 1, 3, 4 and 6
  hold false.
\<close>

theorem digital_read_sets_bits_witness:
  "\<exists>c'. ReadingHandler_receive plain_codec registry_7 FB_PACKET_READ_MULTIPLE_REGISTERS (Some 7)
           [0x05, 0x01, 0x00, 0x00, 0x02, 0xA5, 0x03, 0x00] 8 = Inr c'
     \<and> map (\<lambda>a. map_option register_value (get_register_by_address c' device_7 FB_REGISTER_DI a))
         [0, 1, 2, 3, 4, 5, 6, 7]
       = map (\<lambda>b. Some (PyBool b)) [True, False, True, False, False, True, False, True]"
proof -
  let ?p = "[0x05, 0x01, 0x00, 0x00, 0x02, 0xA5, 0x03, 0x00] :: byte list"
  let ?R = "ReadingHandler_receive plain_codec registry_7 FB_PACKET_READ_MULTIPLE_REGISTERS
              (Some 7) ?p 8"
  have cnt: "RegistersTypes_of 1 = Some FB_REGISTER_DI"
    by (simp add: RegistersTypes_of_def)
  have inst: "\<exists>c'. ?R = Inr c' \<and>
      map_option register_value (get_register_by_address c' device_7 FB_REGISTER_DI j) =
        Some (PyBool (bit (0xA5 :: byte) j))" if j: "j < 8" for j
  proof -
    have "\<exists>c'. ?R = Inr c' \<and>
        get_register_by_address c' device_7 FB_REGISTER_DI (0 + 8 * 0 + j) =
          map_option (\<lambda>r. r\<lparr> register_value := PyBool (bit (?p ! (5 + 0)) j) \<rparr>)
            (get_register_by_address registry_7 device_7 FB_REGISTER_DI (0 + 8 * 0 + j))"
      using j
      by (intro digital_read_sets_bits)
        (simp_all add: device_7_found cnt registry_7_distinct registry_7_count)
    then obtain c' where "?R = Inr c'"
      "get_register_by_address c' device_7 FB_REGISTER_DI j =
         Some ((register_di j)\<lparr> register_value := PyBool (bit (0xA5 :: byte) j) \<rparr>)"
      using j by (auto simp: registry_7_lookup)
    then show ?thesis by simp
  qed
  from inst [of 0] obtain c' where c': "?R = Inr c'" by auto
  have "map_option register_value (get_register_by_address c' device_7 FB_REGISTER_DI j) =
        Some (PyBool (bit (0xA5 :: byte) j))" if "j < 8" for j
    using inst [OF that] c' by simp
  from this [of 0] this [of 1] this [of 2] this [of 3] this [of 4] this [of 5] this [of 6]
    this [of 7] c'
  show ?thesis by simp
qed

end
